theory Spec2Isabelle
  imports Complex_Main
begin

section \<open>Values: floating-point numbers with their special values\<close>

text \<open>
  The voxel values of \<^verbatim>\<open>samri/report/snr.py\<close> are NumPy floats. The model keeps the
  special values of IEEE arithmetic apart (not-a-number, the two infinities) and takes the
  finite values as real numbers. What depends on the special values is as in NumPy: a
  comparison with NaN is false, NaN is "nonzero", an operation on NaN gives NaN, the
  logarithm of zero is minus infinity. Rounding, overflow and the sign of zero are not
  represented: finite arithmetic is exact.
\<close>

datatype fl = NaN | NInf | Fin real | PInf

fun fl_isnan :: "fl \<Rightarrow> bool" where
  "fl_isnan NaN = True"
| "fl_isnan _ = False"

text \<open>The comparisons \<^verbatim>\<open>==\<close>, \<^verbatim>\<open><=\<close> and \<^verbatim>\<open><\<close>: false as soon as one side is NaN.\<close>

fun fl_eq :: "fl \<Rightarrow> fl \<Rightarrow> bool" where
  "fl_eq NaN _ = False"
| "fl_eq _ NaN = False"
| "fl_eq NInf NInf = True"
| "fl_eq PInf PInf = True"
| "fl_eq (Fin a) (Fin b) = (a = b)"
| "fl_eq _ _ = False"

fun fl_le :: "fl \<Rightarrow> fl \<Rightarrow> bool" where
  "fl_le NaN _ = False"
| "fl_le _ NaN = False"
| "fl_le NInf _ = True"
| "fl_le _ PInf = True"
| "fl_le (Fin a) (Fin b) = (a \<le> b)"
| "fl_le _ _ = False"

definition fl_lt :: "fl \<Rightarrow> fl \<Rightarrow> bool" where
  "fl_lt a b = (fl_le a b \<and> \<not> fl_eq a b)"

fun fl_neg :: "fl \<Rightarrow> fl" where
  "fl_neg NaN = NaN"
| "fl_neg NInf = PInf"
| "fl_neg PInf = NInf"
| "fl_neg (Fin a) = Fin (- a)"

fun fl_add :: "fl \<Rightarrow> fl \<Rightarrow> fl" where
  "fl_add NaN _ = NaN"
| "fl_add _ NaN = NaN"
| "fl_add PInf NInf = NaN"
| "fl_add NInf PInf = NaN"
| "fl_add PInf _ = PInf"
| "fl_add _ PInf = PInf"
| "fl_add NInf _ = NInf"
| "fl_add _ NInf = NInf"
| "fl_add (Fin a) (Fin b) = Fin (a + b)"

definition fl_sub :: "fl \<Rightarrow> fl \<Rightarrow> fl" where
  "fl_sub a b = fl_add a (fl_neg b)"

text \<open>The sign of a value that is not NaN, as \<open>-1\<close>, \<open>0\<close> or \<open>1\<close>.\<close>

fun fl_sign :: "fl \<Rightarrow> int" where
  "fl_sign NaN = 0"
| "fl_sign NInf = - 1"
| "fl_sign PInf = 1"
| "fl_sign (Fin a) = (if a < 0 then - 1 else if a = 0 then 0 else 1)"

fun fl_mul :: "fl \<Rightarrow> fl \<Rightarrow> fl" where
  "fl_mul NaN _ = NaN"
| "fl_mul _ NaN = NaN"
| "fl_mul (Fin a) (Fin b) = Fin (a * b)"
| "fl_mul a b =
     (let s = fl_sign a * fl_sign b
      in if s = 0 then NaN else if s < 0 then NInf else PInf)"

text \<open>Division by a count: \<open>0 / 0\<close> is NaN, as for the mean of an empty array.\<close>

fun fl_div_count :: "fl \<Rightarrow> nat \<Rightarrow> fl" where
  "fl_div_count NaN _ = NaN"
| "fl_div_count (Fin a) n =
     (if n = 0 then (if a = 0 then NaN else if a < 0 then NInf else PInf)
      else Fin (a / real n))"
| "fl_div_count NInf _ = NInf"
| "fl_div_count PInf _ = PInf"

fun fl_log10 :: "fl \<Rightarrow> fl" where
  "fl_log10 NaN = NaN"
| "fl_log10 NInf = NaN"
| "fl_log10 PInf = PInf"
| "fl_log10 (Fin a) =
     (if a < 0 then NaN else if a = 0 then NInf else Fin (log 10 a))"

fun fl_sqrt :: "fl \<Rightarrow> fl" where
  "fl_sqrt NaN = NaN"
| "fl_sqrt NInf = NaN"
| "fl_sqrt PInf = PInf"
| "fl_sqrt (Fin a) = (if a < 0 then NaN else Fin (sqrt a))"

section \<open>Errors\<close>

text \<open>
  Every exception that the functions of \<^verbatim>\<open>snr.py\<close> can raise or let through is a value.
  Python's \<^verbatim>\<open>ValueError\<close> comes from five places, told apart by \<open>value_error\<close>:
  NumPy's minimum of an empty array, joblib's \<^verbatim>\<open>n_jobs == 0\<close>, pandas' concatenation of
  no objects, the output path check of the two batch functions, and a positional field
  of a format string whose number is too large.
\<close>

datatype value_error =
  ZeroSizeReduction
| NJobsZero
| NoObjectsToConcatenate
| OutputPathNotCsv
| TooManyDecimalDigits

datatype error =
  KeyError string
| IndexError
| FileNotFoundError string
| ImageFileError string
| MaskError
| ValueError value_error
| TypeError
| IOError string

section \<open>File templates and substitution records\<close>

text \<open>
  A substitution record is a Python \<^verbatim>\<open>dict\<close> from strings to strings, here an association
  list read with \<^const>\<open>map_of\<close>; the empty dict is the empty list, which is what the
  truth test \<^verbatim>\<open>if substitution:\<close> asks.

  A template is a format string as \<^verbatim>\<open>str.format\<close> reads it: literal text and
  replacement fields. \<open>Field k\<close> is the field \<^verbatim>\<open>{k}\<close> for a bare name \<open>k\<close>, which is
  what the templates of this repository use. Conversions and format specifications
  (\<^verbatim>\<open>{k!r:>4}\<close>) and attribute or index access (\<^verbatim>\<open>{k.a}\<close>, \<^verbatim>\<open>{k[0]}\<close>) are not
  represented: \<open>bare_name\<close> below says that a name has none of their marks, and what is
  stated of formatting is stated of templates whose field names are bare.
\<close>

type_synonym substitution = "(string \<times> string) list"

datatype piece = Lit string | Field string

type_synonym template = "piece list"


text \<open>
  A field whose name is empty or a number is positional; \<^verbatim>\<open>format(**substitution)\<close>
  passes no positional argument, so such a field raises \<^verbatim>\<open>IndexError\<close>. A number above
  the largest index of the interpreter (\<^verbatim>\<open>sys.maxsize\<close>, here that of a 64-bit build)
  is refused before that, with \<^verbatim>\<open>ValueError\<close>.
\<close>

definition is_digit :: "char \<Rightarrow> bool" where
  "is_digit c = (c \<in> set ''0123456789'')"

definition positional :: "string \<Rightarrow> bool" where
  "positional k = list_all is_digit k"

definition digit_value :: "char \<Rightarrow> nat" where
  "digit_value c =
     (case map_of (zip ''0123456789'' [0, 1, 2, 3, 4, 5, 6, 7, 8, 9]) c of
        Some d \<Rightarrow> d
      | None \<Rightarrow> 0)"

definition decimal :: "string \<Rightarrow> nat" where
  "decimal k = foldl (\<lambda>a c. 10 * a + digit_value c) 0 k"

definition ssize_t_max :: nat where
  "ssize_t_max = 2 ^ 63 - 1"

fun format_str :: "template \<Rightarrow> substitution \<Rightarrow> error + string" where
  "format_str [] kw = Inr []"
| "format_str (Lit s # ps) kw =
     (case format_str ps kw of Inl e \<Rightarrow> Inl e | Inr r \<Rightarrow> Inr (s @ r))"
| "format_str (Field k # ps) kw =
     (if positional k then
        (if ssize_t_max < decimal k then Inl (ValueError TooManyDecimalDigits)
         else Inl IndexError)
      else case map_of kw k of
        None \<Rightarrow> Inl (KeyError k)
      | Some v \<Rightarrow> (case format_str ps kw of Inl e \<Rightarrow> Inl e | Inr r \<Rightarrow> Inr (v @ r)))"

text \<open>
  The text of the template itself, which is the path when the template is not formatted:
  a brace of the literal text is written doubled.
\<close>

definition escape_braces :: "string \<Rightarrow> string" where
  "escape_braces s =
     concat (map (\<lambda>c. if c = CHR ''{'' then ''{{'' else if c = CHR ''}'' then ''}}'' else [c]) s)"

fun template_text :: "template \<Rightarrow> string" where
  "template_text [] = []"
| "template_text (Lit s # ps) = escape_braces s @ template_text ps"
| "template_text (Field k # ps) = ''{'' @ k @ ''}'' @ template_text ps"


section \<open>The environment: processors, paths, files\<close>

text \<open>
  \<open>cpu_count\<close> is \<^verbatim>\<open>multiprocessing.cpu_count()\<close>; \<open>abspath_expanduser\<close> is
  \<^verbatim>\<open>path.abspath(path.expanduser(p))\<close>, a function of the working directory and the home
  directory; \<open>writable p\<close> says whether a file can be created at \<open>p\<close>.
\<close>

record env =
  cpu_count :: nat
  abspath_expanduser :: "string \<Rightarrow> string"
  writable :: "string \<Rightarrow> bool"

text \<open>
  An array is its shape and its elements in row-major order. A loaded NIfTI image has at
  least one axis and \<open>length (flat a) = prod_list (shape a)\<close>.
\<close>

record ndarray =
  shape :: "nat list"
  flat :: "fl list"

text \<open>
  A scalar that a reduction returns is a number or, from a masked array with no unmasked
  entry, the constant \<^verbatim>\<open>numpy.ma.masked\<close>. A cell of a table holds a statistic, a
  metadata string, or nothing (the \<^verbatim>\<open>NaN\<close> that pandas fills in).
\<close>

datatype scalar = Val fl | MaskedC

datatype cell = Stat scalar | Meta string | NA

text \<open>
  A \<^verbatim>\<open>pandas.DataFrame\<close>: the row labels and the columns by name. The order of the
  columns is not represented.
\<close>

record dataframe =
  index :: "nat list"
  cols :: "string \<rightharpoonup> cell list"

datatype fsnode = Nifti ndarray | Csv dataframe | OtherFile

type_synonym fs = "string \<rightharpoonup> fsnode"

text \<open>
  \<^verbatim>\<open>nib.load(p).get_data()\<close>: a path with no file raises \<^verbatim>\<open>FileNotFoundError\<close>, a file
  that is not an image raises nibabel's \<^verbatim>\<open>ImageFileError\<close>.
\<close>

definition nib_load :: "fs \<Rightarrow> string \<Rightarrow> error + ndarray" where
  "nib_load files p =
     (case files p of
        None \<Rightarrow> Inl (FileNotFoundError p)
      | Some (Nifti a) \<Rightarrow> Inr a
      | Some _ \<Rightarrow> Inl (ImageFileError p))"

section \<open>NumPy reductions\<close>

text \<open>\<^verbatim>\<open>np.minimum\<close> gives NaN as soon as one side is NaN.\<close>

definition fl_min2 :: "fl \<Rightarrow> fl \<Rightarrow> fl" where
  "fl_min2 a b = (if fl_isnan a \<or> fl_isnan b then NaN else if fl_le a b then a else b)"

text \<open>\<^verbatim>\<open>np.min\<close> of an array with no element raises \<^verbatim>\<open>ValueError\<close>.\<close>

fun np_min :: "fl list \<Rightarrow> error + fl" where
  "np_min [] = Inl (ValueError ZeroSizeReduction)"
| "np_min (x # xs) = Inr (foldl fl_min2 x xs)"

definition fl_sum :: "fl list \<Rightarrow> fl" where
  "fl_sum xs = foldl fl_add (Fin 0) xs"

text \<open>\<^verbatim>\<open>np.mean\<close>: the mean of no element is \<open>0 / 0\<close>, NaN.\<close>

definition np_mean :: "fl list \<Rightarrow> fl" where
  "np_mean xs = fl_div_count (fl_sum xs) (length xs)"

text \<open>Sorting a list with no NaN, by insertion.\<close>

fun fl_insort :: "fl \<Rightarrow> fl list \<Rightarrow> fl list" where
  "fl_insort x [] = [x]"
| "fl_insort x (y # ys) = (if fl_le x y then x # y # ys else y # fl_insort x ys)"

definition fl_sort :: "fl list \<Rightarrow> fl list" where
  "fl_sort xs = foldr fl_insort xs []"

text \<open>
  \<^verbatim>\<open>np.median\<close>: NaN when an element is NaN (or there is none), otherwise the mean of
  the middle element, or of the two middle elements, of the sorted values.
\<close>

definition np_median :: "fl list \<Rightarrow> fl" where
  "np_median xs =
     (if xs = [] \<or> list_ex fl_isnan xs then NaN
      else let s = fl_sort xs; n = length s
           in if odd n then np_mean [s ! (n div 2)]
              else np_mean [s ! (n div 2 - 1), s ! (n div 2)])"

section \<open>The significance statistic of one file\<close>

text \<open>
  Lines 40 to 42 of \<^verbatim>\<open>significant_signal\<close> (and 138 to 140 of \<^verbatim>\<open>base_metrics\<close>):
  the template is formatted only when the record is not empty, then made absolute.
\<close>

definition resolve :: "env \<Rightarrow> template \<Rightarrow> substitution \<Rightarrow> error + string" where
  "resolve e data_path substitution =
     (case (if substitution \<noteq> [] then format_str data_path substitution
            else Inr (template_text data_path)) of
        Inl err \<Rightarrow> Inl err
      | Inr p \<Rightarrow> Inr (abspath_expanduser e p))"

text \<open>
  Within \<^verbatim>\<open>significant_signal\<close> the variable \<^verbatim>\<open>data\<close> is an \<^verbatim>\<open>ndarray\<close> when no mask
  is given and a \<^verbatim>\<open>numpy.ma.MaskedArray\<close> otherwise: its values, each with the flag
  "masked". The reductions read all elements whatever the shape, so the elements are kept
  in row-major order.
\<close>

datatype arr = Plain "fl list" | MaskedArr "(fl \<times> bool) list"

text \<open>
  \<^verbatim>\<open>np.ma.masked_array(data, mask=mask)\<close>: a mask of another size than the data is resized
  when it has one element and refused otherwise.
\<close>

definition masked_array :: "fl list \<Rightarrow> bool list \<Rightarrow> error + arr" where
  "masked_array d m =
     (if length m = length d then Inr (MaskedArr (zip d m))
      else case m of
        [b] \<Rightarrow> Inr (MaskedArr (map (\<lambda>x. (x, b)) d))
      | _ \<Rightarrow> Inl MaskError)"

text \<open>
  Lines 47 to 52. \<^verbatim>\<open>(mask < 0.5).astype(int)\<close> flags the voxels outside the region;
  \<^verbatim>\<open>data[~np.isnan(data)]\<close> keeps the entries whose value is not NaN, masked or not, and
  is executed only on this branch.
\<close>

definition apply_mask :: "env \<Rightarrow> fs \<Rightarrow> string \<Rightarrow> ndarray \<Rightarrow> error + arr" where
  "apply_mask e files mask_path data =
     (if mask_path \<noteq> [] then
        (case nib_load files (abspath_expanduser e mask_path) of
           Inl err \<Rightarrow> Inl err
         | Inr mask_data \<Rightarrow>
             (case masked_array (flat data) (map (\<lambda>v. fl_lt v (Fin (1/2))) (flat mask_data)) of
                Inl err \<Rightarrow> Inl err
              | Inr (MaskedArr ps) \<Rightarrow> Inr (MaskedArr (filter (\<lambda>(x, m). \<not> fl_isnan x) ps))
              | Inr (Plain xs) \<Rightarrow> Inr (Plain (filter (\<lambda>x. \<not> fl_isnan x) xs))))
      else Inr (Plain (flat data)))"

text \<open>
  Line 53, \<^verbatim>\<open>data[np.nonzero(data)]\<close>. NaN is not equal to zero, so it is nonzero.
  For a masked array \<^verbatim>\<open>np.nonzero\<close> reads a masked entry as zero: the selection holds
  the unmasked nonzero values, none of them masked.
\<close>

fun nonzero :: "arr \<Rightarrow> fl list" where
  "nonzero (Plain xs) = filter (\<lambda>x. \<not> fl_eq x (Fin 0)) xs"
| "nonzero (MaskedArr ps) = map fst (filter (\<lambda>(x, m). \<not> m \<and> \<not> fl_eq x (Fin 0)) ps)"

text \<open>Lines 53 to 62 on an \<^verbatim>\<open>ndarray\<close>.\<close>

definition log_stats_plain :: "fl list \<Rightarrow> error + (scalar \<times> scalar)" where
  "log_stats_plain data =
     (case np_min (nonzero (Plain data)) of
        Inl err \<Rightarrow> Inl err
      | Inr m \<Rightarrow>
          let data_min = fl_mul m (Fin (99/100));
              data1 = map (\<lambda>x. if fl_eq x (Fin 0) then data_min else x) data;
              data2 = map (\<lambda>x. fl_neg (fl_log10 x)) data1;
              median = np_median data2;
              mean = np_mean data2
          in Inr (Val mean, Val median))"

text \<open>
  Lines 53 to 62 on a masked array, as NumPy 1.13 and later treat it:
  \<^verbatim>\<open>data == 0\<close> is false at a masked entry; \<^verbatim>\<open>np.log10\<close> masks the entries that
  are not above zero; \<^verbatim>\<open>np.ma.median\<close> and the \<^verbatim>\<open>mean\<close> method read the unmasked
  values and return \<^verbatim>\<open>masked\<close> when there is none.
\<close>

definition log_stats_masked :: "(fl \<times> bool) list \<Rightarrow> error + (scalar \<times> scalar)" where
  "log_stats_masked data =
     (case np_min (nonzero (MaskedArr data)) of
        Inl err \<Rightarrow> Inl err
      | Inr mn \<Rightarrow>
          let data_min = fl_mul mn (Fin (99/100));
              data1 = map (\<lambda>(x, m). if \<not> m \<and> fl_eq x (Fin 0) then (data_min, False) else (x, m)) data;
              data2 = map (\<lambda>(x, m). if m \<or> fl_le x (Fin 0) then (x, True)
                                     else (fl_neg (fl_log10 x), False)) data1;
              unmasked = map fst (filter (\<lambda>(x, m). \<not> m) data2);
              median = (if unmasked = [] then MaskedC else Val (np_median unmasked));
              mean = (if unmasked = [] then MaskedC else Val (np_mean unmasked))
          in Inr (mean, median))"

fun log_stats :: "arr \<Rightarrow> error + (scalar \<times> scalar)" where
  "log_stats (Plain xs) = log_stats_plain xs"
| "log_stats (MaskedArr ps) = log_stats_masked ps"

text \<open>
  \<^verbatim>\<open>significant_signal(data_path, substitution, mask_path)\<close>. Only the
  \<^verbatim>\<open>FileNotFoundError\<close> of the data file is caught; it gives the pair of NaN.
\<close>

definition significant_signal ::
  "env \<Rightarrow> fs \<Rightarrow> template \<Rightarrow> substitution \<Rightarrow> string \<Rightarrow> error + (scalar \<times> scalar)" where
  "significant_signal e files data_path substitution mask_path =
     (case resolve e data_path substitution of
        Inl err \<Rightarrow> Inl err
      | Inr p \<Rightarrow>
          (case nib_load files p of
             Inl (FileNotFoundError _) \<Rightarrow> Inr (Val NaN, Val NaN)
           | Inl err \<Rightarrow> Inl err
           | Inr data \<Rightarrow>
               (case apply_mask e files mask_path data of
                  Inl err \<Rightarrow> Inl err
                | Inr a \<Rightarrow> log_stats a)))"

section \<open>Running the units: joblib's Parallel\<close>

text \<open>Line 91 and line 197: \<^verbatim>\<open>n_jobs = mp.cpu_count()-2\<close>, a Python integer.\<close>

definition n_jobs :: "env \<Rightarrow> int" where
  "n_jobs e = int (cpu_count e) - 2"

text \<open>
  joblib's reading of \<^verbatim>\<open>n_jobs\<close>: zero is refused with \<^verbatim>\<open>ValueError\<close>, a negative
  number counts back from the number of processors, with at least one worker.
\<close>

definition effective_n_jobs :: "env \<Rightarrow> int \<Rightarrow> error + int" where
  "effective_n_jobs e n =
     (if n = 0 then Inl (ValueError NJobsZero)
      else if n < 0 then Inr (max (int (cpu_count e) + 1 + n) 1)
      else Inr n)"

text \<open>
  The results of the jobs come back in the order of the task list, whatever the number of
  workers. An exception of a job ends the call; the model reports the one of the first
  failing job of the list.
\<close>

fun run_units :: "('a \<Rightarrow> error + 'b) \<Rightarrow> 'a list \<Rightarrow> error + 'b list" where
  "run_units f [] = Inr []"
| "run_units f (x # xs) =
     (case f x of
        Inl err \<Rightarrow> Inl err
      | Inr y \<Rightarrow> (case run_units f xs of Inl err \<Rightarrow> Inl err | Inr ys \<Rightarrow> Inr (y # ys)))"

definition parallel :: "env \<Rightarrow> int \<Rightarrow> ('a \<Rightarrow> error + 'b) \<Rightarrow> 'a list \<Rightarrow> error + 'b list" where
  "parallel e n f xs =
     (case effective_n_jobs e n of
        Inl err \<Rightarrow> Inl err
      | Inr workers \<Rightarrow> run_units f xs)"

section \<open>Tables\<close>

text \<open>
  \<^verbatim>\<open>pd.DataFrame.from_items\<close> on columns of one length: the rows are numbered from zero.
\<close>

definition from_items :: "(string \<times> cell list) list \<Rightarrow> dataframe" where
  "from_items items =
     \<lparr>index = (case items of [] \<Rightarrow> [] | (_, c) # _ \<Rightarrow> [0..<length c]),
      cols = map_of items\<rparr>"

definition set_column :: "dataframe \<Rightarrow> string \<Rightarrow> cell list \<Rightarrow> dataframe" where
  "set_column df field cells = df\<lparr>cols := (cols df)(field \<mapsto> cells)\<rparr>"

definition metadata_fields :: "string list" where
  "metadata_fields = [''subject'', ''session'', ''task'', ''acquisition'']"

text \<open>
  \<^verbatim>\<open>[i[field] for i in substitutions]\<close>: \<open>None\<close> is the \<^verbatim>\<open>KeyError\<close> of the first record
  without the key.
\<close>

fun lookup_all :: "string \<Rightarrow> substitution list \<Rightarrow> string list option" where
  "lookup_all field [] = Some []"
| "lookup_all field (i # substitutions) =
     (case map_of i field of
        None \<Rightarrow> None
      | Some v \<Rightarrow> (case lookup_all field substitutions of None \<Rightarrow> None | Some vs \<Rightarrow> Some (v # vs)))"

text \<open>Lines 104 to 107: the column is set, or the \<^verbatim>\<open>KeyError\<close> is passed over.\<close>

definition add_field :: "substitution list \<Rightarrow> dataframe \<Rightarrow> string \<Rightarrow> dataframe" where
  "add_field substitutions df field =
     (case lookup_all field substitutions of
        None \<Rightarrow> df
      | Some vs \<Rightarrow> set_column df field (map Meta vs))"

section \<open>Saving a table\<close>

text \<open>\<^verbatim>\<open>str.lower\<close> on the letters of ASCII; any other character is left as it is.\<close>

definition lower_char :: "char \<Rightarrow> char" where
  "lower_char c =
     (case map_of (zip ''ABCDEFGHIJKLMNOPQRSTUVWXYZ'' ''abcdefghijklmnopqrstuvwxyz'') c of
        Some l \<Rightarrow> l
      | None \<Rightarrow> c)"

definition lower :: "string \<Rightarrow> string" where
  "lower s = map lower_char s"

definition endswith :: "string \<Rightarrow> string \<Rightarrow> bool" where
  "endswith s suf = (length suf \<le> length s \<and> drop (length s - length suf) s = suf)"

text \<open>\<^verbatim>\<open>df.to_csv(p)\<close> writes the table, or fails where no file can be created.\<close>

definition to_csv :: "env \<Rightarrow> fs \<Rightarrow> dataframe \<Rightarrow> string \<Rightarrow> (error + dataframe) \<times> fs" where
  "to_csv e files df p =
     (if writable e p then (Inr df, files(p \<mapsto> Csv df)) else (Inl (IOError p), files))"

text \<open>
  Lines 108 to 114, and the same lines 205 to 211: the value returned or the exception
  raised, and the files afterwards.
\<close>

definition save_table :: "env \<Rightarrow> fs \<Rightarrow> dataframe \<Rightarrow> string \<Rightarrow> (error + dataframe) \<times> fs" where
  "save_table e files df save_as =
     (if save_as \<noteq> [] then
        (let p = abspath_expanduser e save_as
         in if endswith (lower p) ''.csv'' then to_csv e files df p
            else (Inl (ValueError OutputPathNotCsv), files))
      else (Inr df, files))"

section \<open>The significance statistic of a batch\<close>

definition iter_significant_signal ::
  "env \<Rightarrow> fs \<Rightarrow> template \<Rightarrow> substitution list \<Rightarrow> string \<Rightarrow> string \<Rightarrow> (error + dataframe) \<times> fs"
  where
  "iter_significant_signal e files file_template substitutions mask_path save_as =
     (case parallel e (n_jobs e)
             (\<lambda>s. significant_signal e files file_template s mask_path) substitutions of
        Inl err \<Rightarrow> (Inl err, files)
      | Inr iter_data \<Rightarrow>
          (let df = from_items
                      [(''Mean'', map (\<lambda>i. Stat (fst i)) iter_data),
                       (''Median'', map (\<lambda>i. Stat (snd i)) iter_data)];
               df = foldl (add_field substitutions) df metadata_fields
           in save_table e files df save_as))"

section \<open>The base metrics of one file\<close>

text \<open>
  \<^verbatim>\<open>for i in data.T\<close> runs over the last axis of \<^verbatim>\<open>data\<close>: volume \<open>t\<close> holds the
  elements whose last index is \<open>t\<close>. An array with no axis cannot be iterated.
\<close>

definition volumes :: "ndarray \<Rightarrow> error + fl list list" where
  "volumes a =
     (case shape a of
        [] \<Rightarrow> Inl TypeError
      | _ \<Rightarrow> (let n = last (shape a); m = length (flat a) div n
              in Inr (map (\<lambda>t. map (\<lambda>k. flat a ! (k * n + t)) [0..<m]) [0..<n])))"

text \<open>\<^verbatim>\<open>np.std\<close>: the root of the mean of the squared distances to the mean.\<close>

definition np_std :: "fl list \<Rightarrow> fl" where
  "np_std xs =
     (let arrmean = np_mean xs
      in fl_sqrt (np_mean (map (\<lambda>x. fl_mul (fl_sub x arrmean) (fl_sub x arrmean)) xs)))"

text \<open>\<^verbatim>\<open>np.unique\<close>: the distinct values in increasing order, NaN last.\<close>

definition np_unique :: "fl list \<Rightarrow> fl list" where
  "np_unique xs =
     remdups (fl_sort (filter (\<lambda>x. \<not> fl_isnan x) xs)) @ filter fl_isnan xs"

text \<open>
  \<^verbatim>\<open>sps.mode(i, axis=None)\<close>, first component: an array with the most frequent value, the
  smallest one when several are as frequent, and an empty array for an empty input. Each
  value of \<^verbatim>\<open>np.unique\<close> is counted with \<^verbatim>\<open>==\<close> and replaces the current one when its
  count is larger; the start is zero with count zero.
\<close>

definition sps_mode :: "fl list \<Rightarrow> fl list" where
  "sps_mode a =
     (if a = [] then []
      else [fst (foldl (\<lambda>(oldmostfreq, oldcounts) score.
                    let counts = length (filter (\<lambda>x. fl_eq x score) a)
                    in if counts > oldcounts then (score, counts) else (oldmostfreq, oldcounts))
                  (Fin 0, 0) (np_unique a))])"

text \<open>
  Lines 145 to 157: one row \<open>(std, mean, median, mode)\<close> for each volume;
  \<^verbatim>\<open>i_mode[0]\<close> raises \<^verbatim>\<open>IndexError\<close> on the empty array.
\<close>

fun volume_stats :: "fl list list \<Rightarrow> error + (fl \<times> fl \<times> fl \<times> fl) list" where
  "volume_stats [] = Inr []"
| "volume_stats (i # data) =
     (let i_std = np_std i; i_mean = np_mean i; i_median = np_median i
      in case sps_mode i of
        [] \<Rightarrow> Inl IndexError
      | i_mode # _ \<Rightarrow>
          (case volume_stats data of
             Inl err \<Rightarrow> Inl err
           | Inr rows \<Rightarrow> Inr ((i_std, i_mean, i_median, i_mode) # rows)))"

text \<open>
  Lines 166 to 170: \<^verbatim>\<open>df[field] = substitution[field]\<close> fills the column with one
  value, or the \<^verbatim>\<open>KeyError\<close> is passed over.
\<close>

definition add_scalar_field :: "substitution \<Rightarrow> dataframe \<Rightarrow> string \<Rightarrow> dataframe" where
  "add_scalar_field substitution df field =
     (case map_of substitution field of
        None \<Rightarrow> df
      | Some v \<Rightarrow> set_column df field (replicate (length (index df)) (Meta v)))"

text \<open>
  \<^verbatim>\<open>base_metrics(file_path, substitution)\<close>. The path is made absolute twice (lines 140
  and 141) and no exception of the load is caught.
\<close>

definition base_metrics :: "env \<Rightarrow> fs \<Rightarrow> template \<Rightarrow> substitution \<Rightarrow> error + dataframe" where
  "base_metrics e files file_path substitution =
     (case resolve e file_path substitution of
        Inl err \<Rightarrow> Inl err
      | Inr p \<Rightarrow>
          (case nib_load files (abspath_expanduser e p) of
             Inl err \<Rightarrow> Inl err
           | Inr data \<Rightarrow>
               (case volumes data of
                  Inl err \<Rightarrow> Inl err
                | Inr vs \<Rightarrow>
                    (case volume_stats vs of
                       Inl err \<Rightarrow> Inl err
                     | Inr rows \<Rightarrow>
                         (let df = from_items
                                     [(''Mean'', map (\<lambda>(sd, mean, median, mode). Stat (Val mean)) rows),
                                      (''Median'', map (\<lambda>(sd, mean, median, mode). Stat (Val median)) rows),
                                      (''Mode'', map (\<lambda>(sd, mean, median, mode). Stat (Val mode)) rows),
                                      (''Standard Deviation'', map (\<lambda>(sd, mean, median, mode). Stat (Val sd)) rows)]
                          in Inr (foldl (add_scalar_field substitution) df metadata_fields))))))"

section \<open>The base metrics of a batch\<close>

text \<open>
  \<^verbatim>\<open>pd.concat\<close>: the rows of the tables one after the other, under the columns of any of
  them; a table without a column gets empty cells there. No table at all is refused.
\<close>

definition pd_concat :: "dataframe list \<Rightarrow> error + dataframe" where
  "pd_concat dfs =
     (if dfs = [] then Inl (ValueError NoObjectsToConcatenate)
      else Inr \<lparr>index = concat (map index dfs),
                cols = (\<lambda>c. if list_ex (\<lambda>d. cols d c \<noteq> None) dfs
                             then Some (concat (map (\<lambda>d. case cols d c of
                                                           Some v \<Rightarrow> v
                                                         | None \<Rightarrow> replicate (length (index d)) NA) dfs))
                             else None)\<rparr>)"

definition iter_base_metrics ::
  "env \<Rightarrow> fs \<Rightarrow> template \<Rightarrow> substitution list \<Rightarrow> string \<Rightarrow> (error + dataframe) \<times> fs" where
  "iter_base_metrics e files file_template substitutions save_as =
     (case parallel e (n_jobs e) (\<lambda>s. base_metrics e files file_template s) substitutions of
        Inl err \<Rightarrow> (Inl err, files)
      | Inr base_metrics_data \<Rightarrow>
          (case pd_concat base_metrics_data of
             Inl err \<Rightarrow> (Inl err, files)
           | Inr df \<Rightarrow> save_table e files df save_as))"

section \<open>Example inputs\<close>

text \<open>
  A machine with four processors, and one with two; paths are absolute already and every
  file can be written.
\<close>

definition env4 :: env where
  "env4 = \<lparr>cpu_count = 4, abspath_expanduser = (\<lambda>p. p), writable = (\<lambda>p. True)\<rparr>"

definition env2 :: env where
  "env2 = \<lparr>cpu_count = 2, abspath_expanduser = (\<lambda>p. p), writable = (\<lambda>p. True)\<rparr>"

text \<open>
  Three images: one voxel of value one, two voxels of value zero, and a NaN beside a
  one; a mask that excludes every voxel of a two-voxel image, and one that includes both.
\<close>

definition files1 :: fs where
  "files1 =
     [''/d/a.nii'' \<mapsto> Nifti \<lparr>shape = [1], flat = [Fin 1]\<rparr>,
      ''/d/z.nii'' \<mapsto> Nifti \<lparr>shape = [2], flat = [Fin 0, Fin 0]\<rparr>,
      ''/d/n.nii'' \<mapsto> Nifti \<lparr>shape = [2], flat = [NaN, Fin 1]\<rparr>,
      ''/d/mask.nii'' \<mapsto> Nifti \<lparr>shape = [2], flat = [Fin 0, Fin 0]\<rparr>,
      ''/d/roi.nii'' \<mapsto> Nifti \<lparr>shape = [2], flat = [Fin 1, Fin 1]\<rparr>]"

definition tpl1 :: template where
  "tpl1 = [Lit ''/d/'', Field ''subject'', Lit ''.nii'']"

text \<open>Two records for the template above: the file of the second does not exist.\<close>

definition records_ab :: "substitution list" where
  "records_ab = [[(''subject'', ''a'')], [(''subject'', ''b'')]]"

text \<open>A template without a field, and two records that share no key.\<close>

definition tpl0 :: template where
  "tpl0 = [Lit ''/d/a.nii'']"

definition records2 :: "substitution list" where
  "records2 = [[(''subject'', ''a'')], [(''session'', ''s1'')]]"


section \<open>Failure of a unit is failure of the batch\<close>


lemma run_units_fails:
  "x \<in> set xs \<Longrightarrow> f x = Inl err \<Longrightarrow> \<exists>err'. run_units f xs = Inl err'"
  by (induction xs) (auto split: sum.splits)

lemma parallel_fails:
  "x \<in> set xs \<Longrightarrow> f x = Inl err \<Longrightarrow> \<exists>err'. parallel e n f xs = Inl err'"
  using run_units_fails[of x xs f err]
  by (auto simp: parallel_def split: sum.splits)

section \<open>Path resolution\<close>




section \<open>The number of workers\<close>

text \<open>
  The number handed to joblib is the number of processors minus two, and nothing keeps
  it above zero: it is at least one exactly from three processors on. With two
  processors it is zero, which joblib refuses; below two it is negative, which joblib
  reads as one worker.
\<close>

lemma n_jobs_is_cpu_count_minus_two:
  "n_jobs e = int (cpu_count e) - 2 \<and>
   (1 \<le> n_jobs e \<longleftrightarrow> 3 \<le> cpu_count e) \<and>
   effective_n_jobs e (n_jobs e) =
     (if cpu_count e = 2 then Inl (ValueError NJobsZero)
      else if cpu_count e < 2 then Inr 1
      else Inr (int (cpu_count e) - 2))"
  by (auto simp: n_jobs_def effective_n_jobs_def)

text \<open>
  Claim C8 on a machine with two processors: the number of workers is zero, not one,
  and both batch functions fail with joblib's \<^verbatim>\<open>ValueError\<close> before any file is read.
\<close>

theorem n_jobs_zero_on_two_processors:
  "n_jobs env2 = 0 \<and> \<not> 1 \<le> n_jobs env2 \<and>
   fst (iter_significant_signal env2 files1 tpl1 [[(''subject'', ''a'')]] [] [])
     = Inl (ValueError NJobsZero) \<and>
   fst (iter_base_metrics env2 files1 tpl1 [[(''subject'', ''a'')]] [])
     = Inl (ValueError NJobsZero)"
  by (simp add: n_jobs_def env2_def iter_significant_signal_def iter_base_metrics_def
      parallel_def effective_n_jobs_def)

section \<open>Evaluation of the examples\<close>

lemmas evals = iter_significant_signal_def parallel_def effective_n_jobs_def n_jobs_def
  significant_signal_def resolve_def env4_def tpl0_def tpl1_def records2_def records_ab_def positional_def is_digit_def
  files1_def nib_load_def apply_mask_def log_stats_plain_def np_mean_def np_median_def fl_sum_def fl_sort_def
  from_items_def metadata_fields_def add_field_def set_column_def save_table_def

section \<open>Degenerate input\<close>

text \<open>
  Claim C3, as the code has it. When the data file and the mask (if any) are loaded and
  the selection \<^verbatim>\<open>nonzero\<close> of line 53 is empty, \<^verbatim>\<open>np.min\<close> on line 54 raises
  \<^verbatim>\<open>ValueError\<close>, and \<^verbatim>\<open>significant_signal\<close> lets it through: no pair of NaN is
  returned.
\<close>

theorem empty_nonzero_raises_value_error:
  assumes "resolve e t s = Inr p" and "nib_load files p = Inr data"
    and "apply_mask e files mask_path data = Inr a" and "nonzero a = []"
  shows "significant_signal e files t s mask_path = Inl (ValueError ZeroSizeReduction)"
proof -
  have "log_stats a = Inl (ValueError ZeroSizeReduction)"
  proof (cases a)
    case (Plain xs)
    with assms(4) show ?thesis by (simp add: log_stats_plain_def)
  next
    case (MaskedArr ps)
    with assms(4) show ?thesis by (simp add: log_stats_masked_def)
  qed
  with assms(1-3) show ?thesis by (simp add: significant_signal_def)
qed

text \<open>
  The theorem at an image that the mask excludes entirely: the voxels are NaN and one,
  the NaN is filtered out and the one is masked.
\<close>

theorem empty_nonzero_raises_value_error_witness:
  "resolve env4 tpl1 [(''subject'', ''n'')] = Inr ''/d/n.nii'' \<and>
   nib_load files1 ''/d/n.nii'' = Inr \<lparr>shape = [2], flat = [NaN, Fin 1]\<rparr> \<and>
   apply_mask env4 files1 ''/d/mask.nii'' \<lparr>shape = [2], flat = [NaN, Fin 1]\<rparr>
     = Inr (MaskedArr [(Fin 1, True)]) \<and>
   nonzero (MaskedArr [(Fin 1, True)]) = [] \<and>
   significant_signal env4 files1 tpl1 [(''subject'', ''n'')] ''/d/mask.nii''
     = Inl (ValueError ZeroSizeReduction)"
proof -
  have h1: "resolve env4 tpl1 [(''subject'', ''n'')] = Inr ''/d/n.nii''"
    by (simp add: resolve_def env4_def tpl1_def positional_def is_digit_def)
  have h2: "nib_load files1 ''/d/n.nii'' = Inr \<lparr>shape = [2], flat = [NaN, Fin 1]\<rparr>"
    by (simp add: nib_load_def files1_def)
  have h3: "apply_mask env4 files1 ''/d/mask.nii'' \<lparr>shape = [2], flat = [NaN, Fin 1]\<rparr>
     = Inr (MaskedArr [(Fin 1, True)])"
    by (simp add: apply_mask_def env4_def nib_load_def files1_def masked_array_def fl_lt_def)
  have h4: "nonzero (MaskedArr [(Fin 1, True)]) = []" by simp
  from empty_nonzero_raises_value_error[OF h1 h2 h3 h4] h1 h2 h3 h4 show ?thesis by simp
qed

text \<open>
  Claim C3 as the specification states it fails at an image of two zero voxels read
  without a mask: the call raises \<^verbatim>\<open>ValueError\<close> and does not return the pair of NaN.
\<close>

theorem all_zero_array_raises:
  "significant_signal env4 files1 tpl1 [(''subject'', ''z'')] [] = Inl (ValueError ZeroSizeReduction)
   \<and> significant_signal env4 files1 tpl1 [(''subject'', ''z'')] [] \<noteq> Inr (Val NaN, Val NaN)"
  by (simp add: significant_signal_def resolve_def env4_def tpl1_def positional_def is_digit_def
      files1_def nib_load_def apply_mask_def log_stats_plain_def)

section \<open>The rows of the significance table\<close>

lemma run_units_returns:
  "(\<forall>x\<in>set xs. \<exists>y. f x = Inr y) \<Longrightarrow> \<exists>ys. run_units f xs = Inr ys"
  by (induction xs) (auto split: sum.splits)

lemma run_units_Inr:
  "run_units f xs = Inr ys \<Longrightarrow>
   length ys = length xs \<and> (\<forall>i<length xs. f (xs ! i) = Inr (ys ! i))"
proof (induction xs arbitrary: ys)
  case Nil
  then show ?case by simp
next
  case (Cons x xs)
  from Cons.prems obtain y ys' where y: "f x = Inr y" and r: "run_units f xs = Inr ys'"
    and ys: "ys = y # ys'"
    by (auto split: sum.splits)
  from Cons.IH[OF r] have l: "length ys' = length xs"
    and a: "\<forall>i<length xs. f (xs ! i) = Inr (ys' ! i)" by simp_all
  show ?case
  proof (intro conjI allI impI)
    show "length ys = length (x # xs)" using l ys by simp
  next
    fix i assume "i < length (x # xs)"
    then show "f ((x # xs) ! i) = Inr (ys ! i)"
      using y a ys by (cases i) simp_all
  qed
qed

lemma index_add_field: "index (add_field ss df f) = index df"
  by (simp add: add_field_def set_column_def split: option.splits)

lemma index_add_fields: "index (foldl (add_field ss) df fs) = index df"
  by (induction fs arbitrary: df) (simp_all add: index_add_field)

lemma cols_add_fields:
  "cols (foldl (add_field ss) df fs) c =
     (if c \<in> set fs
      then (case lookup_all c ss of None \<Rightarrow> cols df c | Some vs \<Rightarrow> Some (map Meta vs))
      else cols df c)"
proof (induction fs arbitrary: df)
  case Nil
  then show ?case by simp
next
  case (Cons f fs)
  have step: "cols (add_field ss df f) c =
      (if c = f then (case lookup_all c ss of None \<Rightarrow> cols df c | Some vs \<Rightarrow> Some (map Meta vs))
       else cols df c)"
    by (simp add: add_field_def set_column_def split: option.splits)
  have "cols (foldl (add_field ss) df (f # fs)) c = cols (foldl (add_field ss) (add_field ss df f) fs) c"
    by simp
  also have "\<dots> = (if c \<in> set fs
      then (case lookup_all c ss of None \<Rightarrow> cols (add_field ss df f) c | Some vs \<Rightarrow> Some (map Meta vs))
      else cols (add_field ss df f) c)"
    by (rule Cons.IH)
  also have "\<dots> = (if c \<in> set (f # fs)
      then (case lookup_all c ss of None \<Rightarrow> cols df c | Some vs \<Rightarrow> Some (map Meta vs))
      else cols df c)"
    unfolding step by (simp split: option.splits)
  finally show ?case .
qed

lemma lookup_all_None_iff:
  "lookup_all f ss = None \<longleftrightarrow> (\<exists>s\<in>set ss. map_of s f = None)"
  by (induction ss) (auto split: option.splits)

lemma lookup_all_Some:
  "lookup_all f ss = Some vs \<Longrightarrow>
   length vs = length ss \<and> (\<forall>i<length ss. map_of (ss ! i) f = Some (vs ! i))"
proof (induction ss arbitrary: vs)
  case Nil
  then show ?case by simp
next
  case (Cons s ss)
  from Cons.prems obtain v vs' where v: "map_of s f = Some v" and r: "lookup_all f ss = Some vs'"
    and vs: "vs = v # vs'"
    by (auto split: option.splits)
  from Cons.IH[OF r] have l: "length vs' = length ss"
    and a: "\<forall>i<length ss. map_of (ss ! i) f = Some (vs' ! i)" by simp_all
  show ?case
  proof (intro conjI allI impI)
    show "length vs = length (s # ss)" using l vs by simp
  next
    fix i assume "i < length (s # ss)"
    then show "map_of ((s # ss) ! i) f = Some (vs ! i)"
      using v a vs by (cases i) simp_all
  qed
qed

lemma save_table_Inr:
  "save_table e files df save_as = (Inr df', files') \<Longrightarrow> df' = df"
  by (auto simp: save_table_def to_csv_def Let_def split: if_splits)

lemma missing_file_nan:
  "resolve e t s = Inr p \<Longrightarrow> files p = None \<Longrightarrow>
   significant_signal e files t s mask_path = Inr (Val NaN, Val NaN)"
  by (simp add: significant_signal_def nib_load_def)

lemma statistic_columns_not_metadata:
  "''Mean'' \<notin> set metadata_fields" "''Median'' \<notin> set metadata_fields"
  by (simp_all add: metadata_fields_def)

lemma parallel_run_units:
  "cpu_count e \<noteq> 2 \<Longrightarrow> parallel e (n_jobs e) f xs = run_units f xs"
  by (auto simp: parallel_def effective_n_jobs_def n_jobs_def)

lemma iter_significant_signal_assembled:
  assumes "cpu_count e \<noteq> 2"
    and "run_units (\<lambda>s. significant_signal e files t s mask_path) substitutions = Inr iter_data"
  shows "iter_significant_signal e files t substitutions mask_path save_as =
           save_table e files
             (foldl (add_field substitutions)
                (from_items [(''Mean'', map (\<lambda>i. Stat (fst i)) iter_data),
                             (''Median'', map (\<lambda>i. Stat (snd i)) iter_data)])
                metadata_fields) save_as"
  using assms by (simp add: iter_significant_signal_def parallel_run_units)

text \<open>
  Claim C1. On a machine where joblib accepts the number of workers, if every unit
  either resolves to a path with no file or returns a pair, the batch assembles a table
  with one row for each record: the cells of row \<open>i\<close> in the columns \<^verbatim>\<open>Mean\<close> and
  \<^verbatim>\<open>Median\<close> are the pair that \<^verbatim>\<open>significant_signal\<close> returns for record \<open>i\<close>, and
  that pair is (NaN, NaN) when the path of record \<open>i\<close> has no file. The call returns
  what saving that table returns, which is the table itself when no save path is given.
\<close>

theorem missing_file_gives_nan_row:
  assumes cpu: "cpu_count e \<noteq> 2"
    and units: "\<forall>s\<in>set substitutions.
                  (\<exists>p. resolve e t s = Inr p \<and> files p = None) \<or>
                  (\<exists>r. significant_signal e files t s mask_path = Inr r)"
  shows "\<exists>df means medians.
           iter_significant_signal e files t substitutions mask_path save_as
             = save_table e files df save_as \<and>
           iter_significant_signal e files t substitutions mask_path [] = (Inr df, files) \<and>
           length (index df) = length substitutions \<and>
           cols df ''Mean'' = Some means \<and> length means = length substitutions \<and>
           cols df ''Median'' = Some medians \<and> length medians = length substitutions \<and>
           (\<forall>i<length substitutions. \<exists>mean median.
              significant_signal e files t (substitutions ! i) mask_path = Inr (mean, median) \<and>
              means ! i = Stat mean \<and> medians ! i = Stat median \<and>
              ((\<exists>p. resolve e t (substitutions ! i) = Inr p \<and> files p = None) \<longrightarrow>
                 mean = Val NaN \<and> median = Val NaN))"
proof -
  let ?f = "\<lambda>s. significant_signal e files t s mask_path"
  have "\<forall>s\<in>set substitutions. \<exists>r. ?f s = Inr r"
    using units missing_file_nan by blast
  from run_units_returns[OF this] obtain iter_data
    where run: "run_units ?f substitutions = Inr iter_data" by blast
  from run_units_Inr[OF run] have len: "length iter_data = length substitutions"
    and each: "\<forall>i<length substitutions. ?f (substitutions ! i) = Inr (iter_data ! i)"
    by simp_all
  define df0 where "df0 = from_items [(''Mean'', map (\<lambda>i. Stat (fst i)) iter_data),
                                       (''Median'', map (\<lambda>i. Stat (snd i)) iter_data)]"
  define df where "df = foldl (add_field substitutions) df0 metadata_fields"
  define means where "means = map (\<lambda>i. Stat (fst i)) iter_data"
  define medians where "medians = map (\<lambda>i. Stat (snd i)) iter_data"
  have it: "iter_significant_signal e files t substitutions mask_path sv
              = save_table e files df sv" for sv
    unfolding df_def df0_def by (rule iter_significant_signal_assembled[OF cpu run])
  have it0: "iter_significant_signal e files t substitutions mask_path [] = (Inr df, files)"
    by (simp add: it save_table_def)
  have idx: "length (index df) = length substitutions"
    by (simp add: df_def index_add_fields df0_def from_items_def len)
  have cm: "cols df ''Mean'' = Some means"
    by (simp add: df_def cols_add_fields statistic_columns_not_metadata df0_def from_items_def
        means_def)
  have cd: "cols df ''Median'' = Some medians"
    by (simp add: df_def cols_add_fields statistic_columns_not_metadata df0_def from_items_def
        medians_def)
  have lm: "length means = length substitutions" "length medians = length substitutions"
    by (simp_all add: means_def medians_def len)
  have rows: "\<forall>i<length substitutions. \<exists>mean median.
      ?f (substitutions ! i) = Inr (mean, median) \<and>
      means ! i = Stat mean \<and> medians ! i = Stat median \<and>
      ((\<exists>p. resolve e t (substitutions ! i) = Inr p \<and> files p = None) \<longrightarrow>
         mean = Val NaN \<and> median = Val NaN)"
  proof (intro allI impI)
    fix i assume i: "i < length substitutions"
    with each have u: "?f (substitutions ! i) = Inr (fst (iter_data ! i), snd (iter_data ! i))"
      by simp
    have m: "means ! i = Stat (fst (iter_data ! i))" "medians ! i = Stat (snd (iter_data ! i))"
      using i len by (simp_all add: means_def medians_def)
    have n: "(\<exists>p. resolve e t (substitutions ! i) = Inr p \<and> files p = None) \<longrightarrow>
               fst (iter_data ! i) = Val NaN \<and> snd (iter_data ! i) = Val NaN"
    proof
      assume "\<exists>p. resolve e t (substitutions ! i) = Inr p \<and> files p = None"
      then have "?f (substitutions ! i) = Inr (Val NaN, Val NaN)"
        using missing_file_nan by blast
      with u have "(fst (iter_data ! i), snd (iter_data ! i)) = (Val NaN, Val NaN)" by simp
      then show "fst (iter_data ! i) = Val NaN \<and> snd (iter_data ! i) = Val NaN" by blast
    qed
    from u m n show "\<exists>mean median.
      ?f (substitutions ! i) = Inr (mean, median) \<and>
      means ! i = Stat mean \<and> medians ! i = Stat median \<and>
      ((\<exists>p. resolve e t (substitutions ! i) = Inr p \<and> files p = None) \<longrightarrow>
         mean = Val NaN \<and> median = Val NaN)"
      by blast
  qed
  from it[of save_as] it0 idx cm cd lm rows show ?thesis by blast
qed

text \<open>
  The theorem at two records of which the second names a file that does not exist.
\<close>

theorem missing_file_gives_nan_row_witness:
  "cpu_count env4 \<noteq> 2 \<and>
   significant_signal env4 files1 tpl1 (records_ab ! 0) [] = Inr (Val (Fin 0), Val (Fin 0)) \<and>
   resolve env4 tpl1 (records_ab ! 1) = Inr ''/d/b.nii'' \<and> files1 ''/d/b.nii'' = None \<and>
   (\<exists>df means medians.
      iter_significant_signal env4 files1 tpl1 records_ab [] [] = (Inr df, files1) \<and>
      length (index df) = 2 \<and>
      cols df ''Mean'' = Some means \<and> means ! 1 = Stat (Val NaN) \<and>
      cols df ''Median'' = Some medians \<and> medians ! 1 = Stat (Val NaN))"
proof -
  have h1: "cpu_count env4 \<noteq> 2" by (simp add: env4_def)
  have ra: "significant_signal env4 files1 tpl1 [(''subject'', ''a'')] [] = Inr (Val (Fin 0), Val (Fin 0))"
    by (simp add: evals)
  have rb: "resolve env4 tpl1 [(''subject'', ''b'')] = Inr ''/d/b.nii''"
    by (simp add: evals)
  have fb: "files1 ''/d/b.nii'' = None" by (simp add: files1_def)
  have h2: "\<forall>s\<in>set records_ab.
      (\<exists>p. resolve env4 tpl1 s = Inr p \<and> files1 p = None) \<or>
      (\<exists>r. significant_signal env4 files1 tpl1 s [] = Inr r)"
    using ra rb fb by (simp add: records_ab_def)
  have r1: "resolve env4 tpl1 (records_ab ! 1) = Inr ''/d/b.nii''"
    using rb by (simp add: records_ab_def)
  from missing_file_gives_nan_row[OF h1 h2, of "[]"]
  obtain df means medians where
    it: "iter_significant_signal env4 files1 tpl1 records_ab [] [] = (Inr df, files1)"
    and idx: "length (index df) = length records_ab"
    and cm: "cols df ''Mean'' = Some means" and cd: "cols df ''Median'' = Some medians"
    and rows: "\<forall>i<length records_ab. \<exists>mean median.
              significant_signal env4 files1 tpl1 (records_ab ! i) [] = Inr (mean, median) \<and>
              means ! i = Stat mean \<and> medians ! i = Stat median \<and>
              ((\<exists>p. resolve env4 tpl1 (records_ab ! i) = Inr p \<and> files1 p = None) \<longrightarrow>
                 mean = Val NaN \<and> median = Val NaN)"
    by blast
  have "1 < length records_ab" by (simp add: records_ab_def)
  with rows r1 fb have "means ! 1 = Stat (Val NaN)" "medians ! 1 = Stat (Val NaN)"
    by blast+
  moreover have "length records_ab = 2" by (simp add: records_ab_def)
  moreover have "significant_signal env4 files1 tpl1 (records_ab ! 0) []
                   = Inr (Val (Fin 0), Val (Fin 0))"
    using ra by (simp add: records_ab_def)
  ultimately show ?thesis using h1 r1 fb it idx cm cd by auto
qed

section \<open>The metadata columns of the significance table\<close>

lemma metadata_not_statistic:
  "field \<in> set metadata_fields \<Longrightarrow> field \<noteq> ''Mean'' \<and> field \<noteq> ''Median''"
  by (auto simp: metadata_fields_def)

text \<open>
  Claim C2, as the code has it. In the table that \<^verbatim>\<open>iter_significant_signal\<close> returns,
  a metadata column is present exactly when every record has the key; its cell in row
  \<open>i\<close> is then the value of record \<open>i\<close>. One record without the key drops the column
  for all rows.
\<close>

theorem metadata_column_iff_every_record_has_key:
  assumes ret: "iter_significant_signal e files t substitutions mask_path save_as = (Inr df, files')"
    and fld: "field \<in> set metadata_fields"
  shows "(cols df field \<noteq> None \<longleftrightarrow> (\<forall>s\<in>set substitutions. map_of s field \<noteq> None)) \<and>
         (\<forall>cells. cols df field = Some cells \<longrightarrow>
            length cells = length substitutions \<and>
            (\<forall>i<length substitutions. \<exists>v.
               map_of (substitutions ! i) field = Some v \<and> cells ! i = Meta v))"
proof -
  let ?f = "\<lambda>s. significant_signal e files t s mask_path"
  from ret obtain iter_data where par: "parallel e (n_jobs e) ?f substitutions = Inr iter_data"
    by (auto simp: iter_significant_signal_def split: sum.splits)
  define df0 where "df0 = from_items [(''Mean'', map (\<lambda>i. Stat (fst i)) iter_data),
                                       (''Median'', map (\<lambda>i. Stat (snd i)) iter_data)]"
  from ret par have "save_table e files (foldl (add_field substitutions) df0 metadata_fields) save_as
                       = (Inr df, files')"
    by (simp add: iter_significant_signal_def df0_def)
  from save_table_Inr[OF this] have df: "df = foldl (add_field substitutions) df0 metadata_fields" .
  have "cols df0 field = None"
    using metadata_not_statistic[OF fld] by (simp add: df0_def from_items_def)
  with fld have c: "cols df field = map_option (map Meta) (lookup_all field substitutions)"
    by (simp add: df cols_add_fields split: option.splits)
  have one: "cols df field \<noteq> None \<longleftrightarrow> (\<forall>s\<in>set substitutions. map_of s field \<noteq> None)"
    using lookup_all_None_iff[of field substitutions] by (simp add: c)
  have two: "\<forall>cells. cols df field = Some cells \<longrightarrow>
            length cells = length substitutions \<and>
            (\<forall>i<length substitutions. \<exists>v.
               map_of (substitutions ! i) field = Some v \<and> cells ! i = Meta v)"
  proof (intro allI impI)
    fix cells assume "cols df field = Some cells"
    with c have "map_option (map Meta) (lookup_all field substitutions) = Some cells" by simp
    then obtain vs where vs: "lookup_all field substitutions = Some vs" and cs: "cells = map Meta vs"
      by (cases "lookup_all field substitutions") auto
    from lookup_all_Some[OF vs] cs
    show "length cells = length substitutions \<and>
            (\<forall>i<length substitutions. \<exists>v.
               map_of (substitutions ! i) field = Some v \<and> cells ! i = Meta v)"
      by simp
  qed
  from one two show ?thesis by blast
qed

text \<open>The theorem at two records that both have the key \<^verbatim>\<open>subject\<close>.\<close>

theorem metadata_column_iff_every_record_has_key_witness:
  "iter_significant_signal env4 files1 tpl1 records_ab [] []
     = (Inr (projr (fst (iter_significant_signal env4 files1 tpl1 records_ab [] []))), files1) \<and>
   ''subject'' \<in> set metadata_fields \<and>
   map_of (records_ab ! 0) ''subject'' = Some ''a'' \<and>
   map_of (records_ab ! 1) ''subject'' = Some ''b'' \<and>
   cols (projr (fst (iter_significant_signal env4 files1 tpl1 records_ab [] []))) ''subject'' \<noteq> None"
proof -
  let ?df = "projr (fst (iter_significant_signal env4 files1 tpl1 records_ab [] []))"
  have "\<not> isl (fst (iter_significant_signal env4 files1 tpl1 records_ab [] []))"
    and "snd (iter_significant_signal env4 files1 tpl1 records_ab [] []) = files1"
    by (simp_all add: evals)
  then have h1: "iter_significant_signal env4 files1 tpl1 records_ab [] [] = (Inr ?df, files1)"
    by (metis prod.collapse sum.collapse(2))
  have h2: "''subject'' \<in> set metadata_fields" by (simp add: metadata_fields_def)
  have h3: "\<forall>s\<in>set records_ab. map_of s ''subject'' \<noteq> None" by (simp add: records_ab_def)
  have h4: "map_of (records_ab ! 0) ''subject'' = Some ''a''"
    "map_of (records_ab ! 1) ''subject'' = Some ''b''"
    by (simp_all add: records_ab_def)
  from metadata_column_iff_every_record_has_key[OF h1 h2] h3
  have "cols ?df ''subject'' \<noteq> None" by blast
  with h1 h2 h4 show ?thesis by blast
qed

text \<open>
  Claim C2 as the specification states it fails at two records of which only the first
  has the key \<^verbatim>\<open>subject\<close>: the table has two rows and no column \<^verbatim>\<open>subject\<close>.
\<close>

theorem metadata_column_dropped_when_one_record_lacks_key:
  "map_of (records2 ! 0) ''subject'' = Some ''a'' \<and>
   \<not> isl (fst (iter_significant_signal env4 files1 tpl0 records2 [] [])) \<and>
   index (projr (fst (iter_significant_signal env4 files1 tpl0 records2 [] []))) = [0, 1] \<and>
   cols (projr (fst (iter_significant_signal env4 files1 tpl0 records2 [] []))) ''subject'' = None"
  by (simp add: evals)

section \<open>A missing file in the base metrics\<close>

lemma run_units_first_failure:
  "(\<forall>u\<in>set pre. \<exists>y. f u = Inr y) \<Longrightarrow> f s = Inl err \<Longrightarrow>
   run_units f (pre @ s # post) = Inl err"
  by (induction pre) (auto split: sum.splits)

lemma base_metrics_missing_file:
  "resolve e t s = Inr p \<Longrightarrow> files (abspath_expanduser e p) = None \<Longrightarrow>
   base_metrics e files t s = Inl (FileNotFoundError (abspath_expanduser e p))"
  by (simp add: base_metrics_def nib_load_def)
lemmas evals_b = iter_base_metrics_def base_metrics_def volumes_def np_std_def np_unique_def
  sps_mode_def fl_sub_def pd_concat_def add_scalar_field_def

text \<open>
  Claim C5. \<^verbatim>\<open>base_metrics\<close> catches nothing: a record whose path has no file makes it
  raise \<^verbatim>\<open>FileNotFoundError\<close>, and a batch that holds the record fails, returns no table
  and writes nothing. The error of the batch is that \<^verbatim>\<open>FileNotFoundError\<close> when joblib
  accepts the number of workers and the records before it give a table.
\<close>

theorem missing_file_fails_base_metrics_batch:
  assumes "resolve e t s = Inr p" and "files (abspath_expanduser e p) = None"
  shows "base_metrics e files t s = Inl (FileNotFoundError (abspath_expanduser e p)) \<and>
         (\<exists>err. iter_base_metrics e files t (pre @ s # post) save_as = (Inl err, files) \<and>
            (cpu_count e \<noteq> 2 \<and> (\<forall>u\<in>set pre. \<exists>df. base_metrics e files t u = Inr df) \<longrightarrow>
               err = FileNotFoundError (abspath_expanduser e p)))"
proof -
  let ?f = "\<lambda>s. base_metrics e files t s"
  have b: "?f s = Inl (FileNotFoundError (abspath_expanduser e p))"
    using assms by (rule base_metrics_missing_file)
  have mem: "s \<in> set (pre @ s # post)" by simp
  from parallel_fails[OF mem, of ?f _ e "n_jobs e"] b
  obtain err where par: "parallel e (n_jobs e) ?f (pre @ s # post) = Inl err" by blast
  then have it: "iter_base_metrics e files t (pre @ s # post) save_as = (Inl err, files)"
    by (simp add: iter_base_metrics_def)
  have "err = FileNotFoundError (abspath_expanduser e p)"
    if c: "cpu_count e \<noteq> 2" and ok: "\<forall>u\<in>set pre. \<exists>df. base_metrics e files t u = Inr df"
  proof -
    from c have "parallel e (n_jobs e) ?f (pre @ s # post) = run_units ?f (pre @ s # post)"
      by (rule parallel_run_units)
    also have "\<dots> = Inl (FileNotFoundError (abspath_expanduser e p))"
      using ok b by (rule run_units_first_failure)
    finally show ?thesis using par by simp
  qed
  with b it show ?thesis by blast
qed

text \<open>The theorem at a batch whose second record names a file that does not exist.\<close>

theorem missing_file_fails_base_metrics_batch_witness:
  "resolve env4 tpl1 [(''subject'', ''b'')] = Inr ''/d/b.nii'' \<and>
   files1 (abspath_expanduser env4 ''/d/b.nii'') = None \<and>
   cpu_count env4 \<noteq> 2 \<and>
   \<not> isl (base_metrics env4 files1 tpl1 [(''subject'', ''a'')]) \<and>
   base_metrics env4 files1 tpl1 [(''subject'', ''b'')] = Inl (FileNotFoundError ''/d/b.nii'') \<and>
   iter_base_metrics env4 files1 tpl1 ([[(''subject'', ''a'')]] @ [(''subject'', ''b'')] # []) []
     = (Inl (FileNotFoundError ''/d/b.nii''), files1)"
proof -
  have h1: "resolve env4 tpl1 [(''subject'', ''b'')] = Inr ''/d/b.nii''"
    by (simp add: evals)
  have n: "abspath_expanduser env4 ''/d/b.nii'' = ''/d/b.nii''" by (simp add: env4_def)
  have h2: "files1 (abspath_expanduser env4 ''/d/b.nii'') = None"
    by (simp add: n files1_def)
  have c: "cpu_count env4 \<noteq> 2" by (simp add: env4_def)
  have a: "\<not> isl (base_metrics env4 files1 tpl1 [(''subject'', ''a'')])"
    by (simp add: evals evals_b)
  then have pre: "\<forall>u\<in>set [[(''subject'', ''a'')]]. \<exists>df. base_metrics env4 files1 tpl1 u = Inr df"
    by (cases "base_metrics env4 files1 tpl1 [(''subject'', ''a'')]") simp_all
  from missing_file_fails_base_metrics_batch[where e = env4 and files = files1 and t = tpl1 and s = "[(''subject'', ''b'')]"
        and p = "''/d/b.nii''" and pre = "[[(''subject'', ''a'')]]" and post = "[]"
        and save_as = "[]", OF h1 h2] c pre
  have "base_metrics env4 files1 tpl1 [(''subject'', ''b'')] = Inl (FileNotFoundError ''/d/b.nii'')"
    and "iter_base_metrics env4 files1 tpl1 ([[(''subject'', ''a'')]] @ [(''subject'', ''b'')] # []) []
     = (Inl (FileNotFoundError ''/d/b.nii''), files1)"
    unfolding n by auto
  with h1 h2 c a show ?thesis by blast
qed

section \<open>Saving\<close>

lemma iter_significant_signal_save:
  "iter_significant_signal e files t ss mask_path [] = (Inr df, files0) \<Longrightarrow>
   iter_significant_signal e files t ss mask_path save_as = save_table e files df save_as"
  by (auto simp: iter_significant_signal_def save_table_def Let_def split: sum.splits)

lemma iter_base_metrics_save:
  "iter_base_metrics e files t ss [] = (Inr df, files0) \<Longrightarrow>
   iter_base_metrics e files t ss save_as = save_table e files df save_as"
  by (auto simp: iter_base_metrics_def save_table_def Let_def split: sum.splits)

lemma save_table_outcome:
  "save_as \<noteq> [] \<Longrightarrow>
   save_table e files df save_as =
     (let p = abspath_expanduser e save_as
      in if endswith (lower p) ''.csv''
         then (if writable e p then (Inr df, files(p \<mapsto> Csv df)) else (Inl (IOError p), files))
         else (Inl (ValueError OutputPathNotCsv), files))"
  by (simp add: save_table_def to_csv_def Let_def)

lemma lower_append: "lower (a @ b) = lower a @ lower b"
  by (simp add: lower_def)

lemma endswith_append: "endswith (a @ b) b"
  by (simp add: endswith_def)
lemmas evals_save = lower_def lower_char_def endswith_def

lemma example_significance_table:
  "iter_significant_signal env4 files1 tpl1 records_ab [] []
     = (Inr (projr (fst (iter_significant_signal env4 files1 tpl1 records_ab [] []))), files1)"
proof -
  have "\<not> isl (fst (iter_significant_signal env4 files1 tpl1 records_ab [] []))"
    and "snd (iter_significant_signal env4 files1 tpl1 records_ab [] []) = files1"
    by (simp_all add: evals)
  then show ?thesis by (metis prod.collapse sum.collapse(2))
qed

lemma example_base_table:
  "iter_base_metrics env4 files1 tpl1 [[(''subject'', ''a'')]] []
     = (Inr (projr (fst (iter_base_metrics env4 files1 tpl1 [[(''subject'', ''a'')]] []))), files1)"
proof -
  have "\<not> isl (fst (iter_base_metrics env4 files1 tpl1 [[(''subject'', ''a'')]] []))"
    and "snd (iter_base_metrics env4 files1 tpl1 [[(''subject'', ''a'')]] []) = files1"
    by (simp_all add: evals evals_b)
  then show ?thesis by (metis prod.collapse sum.collapse(2))
qed

text \<open>
  Claim C7, as the code has it. For a table that the batch assembles (the one it returns
  without a save path) and a save path that is given: when the absolute path, put in
  lower case, ends in \<^verbatim>\<open>.csv\<close> the table is written to it (or \<^verbatim>\<open>IOError\<close> is raised
  where no file can be created); for any other ending the call raises \<^verbatim>\<open>ValueError\<close>
  and the files are as before.
\<close>

theorem save_outcome_by_lowercased_suffix:
  assumes "save_as \<noteq> []"
  shows "(iter_significant_signal e files t ss mask_path [] = (Inr df, files0) \<longrightarrow>
            iter_significant_signal e files t ss mask_path save_as =
              (let p = abspath_expanduser e save_as
               in if endswith (lower p) ''.csv''
                  then (if writable e p then (Inr df, files(p \<mapsto> Csv df))
                        else (Inl (IOError p), files))
                  else (Inl (ValueError OutputPathNotCsv), files))) \<and>
         (iter_base_metrics e files t ss [] = (Inr df', files0') \<longrightarrow>
            iter_base_metrics e files t ss save_as =
              (let p = abspath_expanduser e save_as
               in if endswith (lower p) ''.csv''
                  then (if writable e p then (Inr df', files(p \<mapsto> Csv df'))
                        else (Inl (IOError p), files))
                  else (Inl (ValueError OutputPathNotCsv), files)))"
  using assms
  by (simp add: iter_significant_signal_save iter_base_metrics_save save_table_outcome)

text \<open>The theorem at the paths \<^verbatim>\<open>/out.csv\<close> and \<^verbatim>\<open>/out.txt\<close>.\<close>

theorem save_outcome_by_lowercased_suffix_witness:
  "''/out.csv'' \<noteq> [] \<and> ''/out.txt'' \<noteq> [] \<and>
   iter_significant_signal env4 files1 tpl1 records_ab [] []
     = (Inr (projr (fst (iter_significant_signal env4 files1 tpl1 records_ab [] []))), files1) \<and>
   iter_base_metrics env4 files1 tpl1 [[(''subject'', ''a'')]] []
     = (Inr (projr (fst (iter_base_metrics env4 files1 tpl1 [[(''subject'', ''a'')]] []))), files1) \<and>
   iter_significant_signal env4 files1 tpl1 records_ab [] ''/out.csv''
     = (Inr (projr (fst (iter_significant_signal env4 files1 tpl1 records_ab [] []))),
        files1(''/out.csv'' \<mapsto>
          Csv (projr (fst (iter_significant_signal env4 files1 tpl1 records_ab [] []))))) \<and>
   iter_base_metrics env4 files1 tpl1 [[(''subject'', ''a'')]] ''/out.txt''
     = (Inl (ValueError OutputPathNotCsv), files1)"
proof -
  let ?a = "projr (fst (iter_significant_signal env4 files1 tpl1 records_ab [] []))"
  let ?b = "projr (fst (iter_base_metrics env4 files1 tpl1 [[(''subject'', ''a'')]] []))"
  have n1: "''/out.csv'' \<noteq> []" and n2: "''/out.txt'' \<noteq> []" by simp_all
  have p: "abspath_expanduser env4 ''/out.csv'' = ''/out.csv''"
    "abspath_expanduser env4 ''/out.txt'' = ''/out.txt''"
    "writable env4 ''/out.csv''"
    by (simp_all add: env4_def)
  have s: "endswith (lower ''/out.csv'') ''.csv''" "\<not> endswith (lower ''/out.txt'') ''.csv''"
    by (simp_all add: evals_save)
  from save_outcome_by_lowercased_suffix[where save_as = "''/out.csv''" and e = env4 and files = files1 and t = tpl1
        and ss = records_ab and mask_path = "[]" and df = ?a and ?files0.0 = files1, OF n1]
    example_significance_table p s
  have r1: "iter_significant_signal env4 files1 tpl1 records_ab [] ''/out.csv''
     = (Inr ?a, files1(''/out.csv'' \<mapsto> Csv ?a))"
    by (simp add: Let_def)
  from save_outcome_by_lowercased_suffix[where save_as = "''/out.txt''" and e = env4 and files = files1 and t = tpl1
        and ss = "[[(''subject'', ''a'')]]" and df' = ?b and ?files0' = files1, OF n2]
    example_base_table p s
  have r2: "iter_base_metrics env4 files1 tpl1 [[(''subject'', ''a'')]] ''/out.txt''
     = (Inl (ValueError OutputPathNotCsv), files1)"
    by (simp add: Let_def)
  from n1 n2 example_significance_table example_base_table r1 r2 show ?thesis by blast
qed

text \<open>
  Claim C7 as the specification states it fails at the path \<^verbatim>\<open>/out.CSV\<close>, which does
  not end in \<^verbatim>\<open>.csv\<close>: the call returns a table and the file is written.
\<close>

theorem uppercase_csv_extension_is_saved:
  "\<not> endswith ''/out.CSV'' ''.csv'' \<and>
   \<not> isl (fst (iter_significant_signal env4 files1 tpl1 records_ab [] ''/out.CSV'')) \<and>
   snd (iter_significant_signal env4 files1 tpl1 records_ab [] ''/out.CSV'') ''/out.CSV'' \<noteq> None"
  by (simp add: evals evals_save to_csv_def Let_def)

text \<open>
  Claim C10. For an assembled table and a save path that is given, the \<^verbatim>\<open>ValueError\<close>
  of the path check is raised exactly when the absolute path in lower case does not end
  in \<^verbatim>\<open>.csv\<close>; a path whose ending is \<^verbatim>\<open>.csv\<close> after lowercasing, such as
  \<^verbatim>\<open>.CSV\<close>, is saved to when the file can be created.
\<close>

theorem csv_check_is_case_insensitive:
  assumes "save_as \<noteq> []"
  shows "(iter_significant_signal e files t ss mask_path [] = (Inr df, files0) \<longrightarrow>
            (fst (iter_significant_signal e files t ss mask_path save_as)
               = Inl (ValueError OutputPathNotCsv)
             \<longleftrightarrow> \<not> endswith (lower (abspath_expanduser e save_as)) ''.csv'') \<and>
            (\<forall>stem ext. abspath_expanduser e save_as = stem @ ext \<and> lower ext = ''.csv'' \<and>
               writable e (stem @ ext) \<longrightarrow>
               iter_significant_signal e files t ss mask_path save_as
                 = (Inr df, files(stem @ ext \<mapsto> Csv df)))) \<and>
         (iter_base_metrics e files t ss [] = (Inr df', files0') \<longrightarrow>
            (fst (iter_base_metrics e files t ss save_as) = Inl (ValueError OutputPathNotCsv)
             \<longleftrightarrow> \<not> endswith (lower (abspath_expanduser e save_as)) ''.csv'') \<and>
            (\<forall>stem ext. abspath_expanduser e save_as = stem @ ext \<and> lower ext = ''.csv'' \<and>
               writable e (stem @ ext) \<longrightarrow>
               iter_base_metrics e files t ss save_as
                 = (Inr df', files(stem @ ext \<mapsto> Csv df'))))"
proof -
  have suf: "endswith (lower (stem @ ext)) ''.csv''" if "lower ext = ''.csv''" for stem ext
    using that endswith_append[of "lower stem" "lower ext"] by (simp add: lower_append)
  have tab: "(fst (save_table e files d save_as) = Inl (ValueError OutputPathNotCsv)
             \<longleftrightarrow> \<not> endswith (lower (abspath_expanduser e save_as)) ''.csv'') \<and>
            (\<forall>stem ext. abspath_expanduser e save_as = stem @ ext \<and> lower ext = ''.csv'' \<and>
               writable e (stem @ ext) \<longrightarrow>
               save_table e files d save_as = (Inr d, files(stem @ ext \<mapsto> Csv d)))" for d
    using assms suf by (auto simp: save_table_outcome Let_def)
  show ?thesis
    using tab[of df] tab[of df']
    by (auto simp: iter_significant_signal_save iter_base_metrics_save)
qed

text \<open>The theorem at the path \<^verbatim>\<open>/out.CSV\<close>.\<close>

theorem csv_check_is_case_insensitive_witness:
  "''/out.CSV'' \<noteq> [] \<and>
   iter_significant_signal env4 files1 tpl1 records_ab [] []
     = (Inr (projr (fst (iter_significant_signal env4 files1 tpl1 records_ab [] []))), files1) \<and>
   iter_base_metrics env4 files1 tpl1 [[(''subject'', ''a'')]] []
     = (Inr (projr (fst (iter_base_metrics env4 files1 tpl1 [[(''subject'', ''a'')]] []))), files1) \<and>
   abspath_expanduser env4 ''/out.CSV'' = ''/out'' @ ''.CSV'' \<and> lower ''.CSV'' = ''.csv'' \<and>
   writable env4 (''/out'' @ ''.CSV'') \<and>
   iter_significant_signal env4 files1 tpl1 records_ab [] ''/out.CSV''
     = (Inr (projr (fst (iter_significant_signal env4 files1 tpl1 records_ab [] []))),
        files1(''/out'' @ ''.CSV'' \<mapsto>
          Csv (projr (fst (iter_significant_signal env4 files1 tpl1 records_ab [] []))))) \<and>
   iter_base_metrics env4 files1 tpl1 [[(''subject'', ''a'')]] ''/out.CSV''
     = (Inr (projr (fst (iter_base_metrics env4 files1 tpl1 [[(''subject'', ''a'')]] []))),
        files1(''/out'' @ ''.CSV'' \<mapsto>
          Csv (projr (fst (iter_base_metrics env4 files1 tpl1 [[(''subject'', ''a'')]] [])))))"
proof -
  let ?a = "projr (fst (iter_significant_signal env4 files1 tpl1 records_ab [] []))"
  let ?b = "projr (fst (iter_base_metrics env4 files1 tpl1 [[(''subject'', ''a'')]] []))"
  have n: "''/out.CSV'' \<noteq> []" by simp
  have p: "abspath_expanduser env4 ''/out.CSV'' = ''/out'' @ ''.CSV''"
    and w: "writable env4 (''/out'' @ ''.CSV'')"
    by (simp_all add: env4_def)
  have l: "lower ''.CSV'' = ''.csv''" by (simp add: evals_save)
  note t = csv_check_is_case_insensitive[where save_as = "''/out.CSV''" and e = env4 and files = files1 and t = tpl1
        and mask_path = "[]", OF n]
  from t[where ss = records_ab and df = ?a and ?files0.0 = files1] example_significance_table p l w
  have r1: "iter_significant_signal env4 files1 tpl1 records_ab [] ''/out.CSV''
     = (Inr ?a, files1(''/out'' @ ''.CSV'' \<mapsto> Csv ?a))"
    by blast
  from t[where ss = "[[(''subject'', ''a'')]]" and df' = ?b and ?files0' = files1]
    example_base_table p l w
  have r2: "iter_base_metrics env4 files1 tpl1 [[(''subject'', ''a'')]] ''/out.CSV''
     = (Inr ?b, files1(''/out'' @ ''.CSV'' \<mapsto> Csv ?b))"
    by blast
  from n example_significance_table example_base_table p l w r1 r2 show ?thesis by blast
qed

section \<open>NaN voxels and the mask\<close>

lemma fl_add_NaN_right: "fl_add a NaN = NaN"
  by (cases a) simp_all

lemma foldl_fl_add_NaN: "foldl fl_add NaN xs = NaN"
  by (induction xs) simp_all

lemma foldl_fl_add_has_NaN: "NaN \<in> set xs \<Longrightarrow> foldl fl_add acc xs = NaN"
  by (induction xs arbitrary: acc) (auto simp: fl_add_NaN_right foldl_fl_add_NaN)

lemma np_mean_has_NaN: "NaN \<in> set xs \<Longrightarrow> np_mean xs = NaN"
  by (simp add: np_mean_def fl_sum_def foldl_fl_add_has_NaN)

lemma fl_isnan_iff: "fl_isnan x \<longleftrightarrow> x = NaN"
  by (cases x) simp_all

lemma np_median_has_NaN: "NaN \<in> set xs \<Longrightarrow> np_median xs = NaN"
  by (auto simp: np_median_def list_ex_iff)

lemma fl_eq_NaN_left: "\<not> fl_eq NaN b"
  by simp

lemma log_stats_plain_has_NaN:
  assumes "NaN \<in> set data"
  shows "log_stats_plain data = Inr (Val NaN, Val NaN)"
proof -
  have "\<not> fl_eq NaN (Fin 0)" by simp
  with assms have "\<exists>x\<in>set data. \<not> fl_eq x (Fin 0)" by blast
  then have "nonzero (Plain data) \<noteq> []"
    by (simp add: filter_empty_conv)
  then obtain x xs where nz: "nonzero (Plain data) = x # xs"
    unfolding neq_Nil_conv by blast
  let ?data_min = "fl_mul (foldl fl_min2 x xs) (Fin (99/100))"
  let ?data2 = "map (\<lambda>x. fl_neg (fl_log10 x))
                  (map (\<lambda>x. if fl_eq x (Fin 0) then ?data_min else x) data)"
  from assms have "fl_neg (fl_log10 (if fl_eq NaN (Fin 0) then ?data_min else NaN)) \<in> set ?data2"
    unfolding set_map by blast
  then have "NaN \<in> set ?data2" by simp
  then have "np_mean ?data2 = NaN" "np_median ?data2 = NaN"
    by (rule np_mean_has_NaN, rule np_median_has_NaN)
  then show ?thesis
    unfolding log_stats_plain_def nz by (simp add: Let_def)
qed

lemma fl_add_low:
  "a \<noteq> NaN \<Longrightarrow> a \<noteq> PInf \<Longrightarrow> b \<noteq> NaN \<Longrightarrow> b \<noteq> PInf \<Longrightarrow>
   fl_add a b \<noteq> NaN \<and> fl_add a b \<noteq> PInf"
  by (cases a; cases b) simp_all

lemma foldl_fl_add_low:
  "acc \<noteq> NaN \<Longrightarrow> acc \<noteq> PInf \<Longrightarrow> \<forall>x\<in>set xs. x \<noteq> NaN \<and> x \<noteq> PInf \<Longrightarrow>
   foldl fl_add acc xs \<noteq> NaN \<and> foldl fl_add acc xs \<noteq> PInf"
proof (induction xs arbitrary: acc)
  case Nil
  then show ?case by simp
next
  case (Cons x xs)
  from Cons.prems have "fl_add acc x \<noteq> NaN \<and> fl_add acc x \<noteq> PInf"
    by (simp add: fl_add_low)
  with Cons.IH[of "fl_add acc x"] Cons.prems show ?case by simp
qed

lemma fl_div_count_low:
  "a \<noteq> NaN \<Longrightarrow> 0 < n \<Longrightarrow> fl_div_count a n \<noteq> NaN"
  by (cases a) simp_all

lemma np_mean_low:
  assumes "xs \<noteq> []" and "\<forall>x\<in>set xs. x \<noteq> NaN \<and> x \<noteq> PInf"
  shows "np_mean xs \<noteq> NaN"
proof -
  have "foldl fl_add (Fin 0) xs \<noteq> NaN"
    using foldl_fl_add_low[of "Fin 0" xs] assms(2) by simp
  moreover from assms(1) have "0 < length xs" by simp
  ultimately show ?thesis by (simp add: np_mean_def fl_sum_def fl_div_count_low)
qed

lemma fl_min2_not_NaN: "a \<noteq> NaN \<Longrightarrow> b \<noteq> NaN \<Longrightarrow> fl_min2 a b \<noteq> NaN"
  by (simp add: fl_min2_def fl_isnan_iff)

lemma foldl_fl_min2_not_NaN:
  "a \<noteq> NaN \<Longrightarrow> \<forall>x\<in>set xs. x \<noteq> NaN \<Longrightarrow> foldl fl_min2 a xs \<noteq> NaN"
  by (induction xs arbitrary: a) (simp_all add: fl_min2_not_NaN)

lemma fl_mul_not_NaN: "a \<noteq> NaN \<Longrightarrow> 0 < c \<Longrightarrow> fl_mul a (Fin c) \<noteq> NaN"
  by (cases a) (simp_all add: Let_def)

lemma neg_log10_low:
  "x \<noteq> NaN \<Longrightarrow> \<not> fl_le x (Fin 0) \<Longrightarrow>
   fl_neg (fl_log10 x) \<noteq> NaN \<and> fl_neg (fl_log10 x) \<noteq> PInf"
  by (cases x) (auto split: if_splits)

lemma masked_array_values:
  "masked_array d m = Inr a \<Longrightarrow> \<exists>ps. a = MaskedArr ps \<and> map fst ps = d"
  by (auto simp: masked_array_def comp_def split: if_splits list.splits)

lemma map_fst_filter_values:
  "map fst (filter (\<lambda>(x, m). P x) ps) = filter P (map fst ps)"
  by (induction ps) auto

lemma apply_mask_with_mask:
  assumes "mask_path \<noteq> []" and "apply_mask e files mask_path data = Inr a"
  shows "\<exists>ps. a = MaskedArr ps \<and> map fst ps = filter (\<lambda>x. \<not> fl_isnan x) (flat data)"
proof -
  let ?bits = "\<lambda>mask_data. map (\<lambda>v. fl_lt v (Fin (1/2))) (flat mask_data)"
  obtain mask_data where l: "nib_load files (abspath_expanduser e mask_path) = Inr mask_data"
    using assms
    by (cases "nib_load files (abspath_expanduser e mask_path)") (simp_all add: apply_mask_def)
  obtain a0 where m: "masked_array (flat data) (?bits mask_data) = Inr a0"
    using assms l
    by (cases "masked_array (flat data) (?bits mask_data)") (simp_all add: apply_mask_def)
  from masked_array_values[OF m] obtain ps0 where a0: "a0 = MaskedArr ps0"
    and v: "map fst ps0 = flat data" by blast
  from assms l m a0 have "a = MaskedArr (filter (\<lambda>(x, m). \<not> fl_isnan x) ps0)"
    by (simp add: apply_mask_def)
  moreover have "map fst (filter (\<lambda>(x, m). \<not> fl_isnan x) ps0)
                   = filter (\<lambda>x. \<not> fl_isnan x) (flat data)"
    by (simp add: map_fst_filter_values v)
  ultimately show ?thesis by blast
qed

lemma set_fl_insort: "set (fl_insort x xs) = insert x (set xs)"
  by (induction xs) auto

lemma length_fl_insort: "length (fl_insort x xs) = Suc (length xs)"
  by (induction xs) auto

lemma set_fl_sort: "set (fl_sort xs) = set xs"
  unfolding fl_sort_def by (induction xs) (simp_all add: set_fl_insort)

lemma length_fl_sort: "length (fl_sort xs) = length xs"
  unfolding fl_sort_def by (induction xs) (simp_all add: length_fl_insort)

lemma np_median_low:
  assumes ne: "xs \<noteq> []" and low: "\<forall>x\<in>set xs. x \<noteq> NaN \<and> x \<noteq> PInf"
  shows "np_median xs \<noteq> NaN"
proof -
  let ?s = "fl_sort xs"
  let ?n = "length ?s"
  have n: "0 < ?n" using ne by (simp add: length_fl_sort)
  have nn: "\<not> list_ex fl_isnan xs" using low by (auto simp: list_ex_iff fl_isnan_iff)
  have el: "?s ! i \<noteq> NaN \<and> ?s ! i \<noteq> PInf" if "i < ?n" for i
  proof -
    from that have "?s ! i \<in> set ?s" by (rule nth_mem)
    then show ?thesis using low by (simp add: set_fl_sort)
  qed
  have a: "?s ! (?n div 2) \<noteq> NaN \<and> ?s ! (?n div 2) \<noteq> PInf"
    using n by (intro el) simp
  have "?n div 2 - 1 < ?n" using n by arith
  then have b: "?s ! (?n div 2 - 1) \<noteq> NaN \<and> ?s ! (?n div 2 - 1) \<noteq> PInf"
    by (rule el)
  have one: "np_mean [?s ! (?n div 2)] \<noteq> NaN"
    using a by (intro np_mean_low) simp_all
  have two: "np_mean [?s ! (?n div 2 - 1), ?s ! (?n div 2)] \<noteq> NaN"
    using a b by (intro np_mean_low) simp_all
  show ?thesis
    unfolding np_median_def using ne nn one two by (simp add: Let_def)
qed

lemma nonzero_masked_values:
  "nonzero (MaskedArr qs)
     = filter (\<lambda>x. \<not> fl_eq x (Fin 0)) (map fst (filter (\<lambda>(x, m). \<not> m) qs))"
  by (induction qs) auto

lemma unmasked_logs:
  "map fst (filter (\<lambda>(x, m). \<not> m)
      (map (\<lambda>(x, m). if m \<or> fl_le x (Fin 0) then (x, True) else (fl_neg (fl_log10 x), False))
         (map (\<lambda>(x, m). if \<not> m \<and> fl_eq x (Fin 0) then (dm, False) else (x, m)) qs)))
     = map (\<lambda>x. fl_neg (fl_log10 x))
         (filter (\<lambda>x. \<not> fl_le x (Fin 0))
            (map (\<lambda>x. if fl_eq x (Fin 0) then dm else x)
               (map fst (filter (\<lambda>(x, m). \<not> m) qs))))"
  by (induction qs) (auto split: if_splits)

lemma log_stats_masked_closed:
  "log_stats_masked qs =
     (let vals = map fst (filter (\<lambda>(x, m). \<not> m) qs)
      in case np_min (filter (\<lambda>x. \<not> fl_eq x (Fin 0)) vals) of
        Inl err \<Rightarrow> Inl err
      | Inr mn \<Rightarrow>
          let data_min = fl_mul mn (Fin (99/100));
              logs = map (\<lambda>x. fl_neg (fl_log10 x))
                       (filter (\<lambda>x. \<not> fl_le x (Fin 0))
                          (map (\<lambda>x. if fl_eq x (Fin 0) then data_min else x) vals))
          in Inr (if logs = [] then MaskedC else Val (np_mean logs),
                  if logs = [] then MaskedC else Val (np_median logs)))"
  unfolding log_stats_masked_def Let_def nonzero_masked_values unmasked_logs ..

lemma retained_values:
  "map fst (filter (\<lambda>(x, m). \<not> m) (filter (\<lambda>(x, m). \<not> fl_isnan x) ps))
     = map fst (filter (\<lambda>(x, m). \<not> m \<and> \<not> fl_isnan x) ps)"
  by (induction ps) auto

lemma np_min_Inr: "np_min xs = Inr mn \<Longrightarrow> \<exists>y ys. xs = y # ys \<and> mn = foldl fl_min2 y ys"
  by (cases xs) auto

lemma in_set_mapD: "x \<in> set (map f xs) \<Longrightarrow> \<exists>w\<in>set xs. x = f w"
  by auto

lemma log_stats_masked_not_NaN:
  assumes nn: "\<forall>(x, m)\<in>set qs. x \<noteq> NaN"
    and res: "log_stats_masked qs = Inr (mean, median)"
  shows "mean \<noteq> Val NaN \<and> median \<noteq> Val NaN"
proof -
  let ?vals = "map fst (filter (\<lambda>(x, m). \<not> m) qs)"
  let ?nz = "filter (\<lambda>x. \<not> fl_eq x (Fin 0)) ?vals"
  have vn: "\<forall>v\<in>set ?vals. v \<noteq> NaN" using nn by auto
  from res obtain mn where mn: "np_min ?nz = Inr mn"
    by (cases "np_min ?nz") (simp_all add: log_stats_masked_closed Let_def)
  from np_min_Inr[OF mn] obtain y ys where nz: "?nz = y # ys" and m: "mn = foldl fl_min2 y ys"
    by blast
  have "\<forall>v\<in>set ?nz. v \<noteq> NaN" using vn by auto
  then have "y \<noteq> NaN" "\<forall>v\<in>set ys. v \<noteq> NaN" unfolding nz by simp_all
  then have "mn \<noteq> NaN" unfolding m by (rule foldl_fl_min2_not_NaN)
  then have dm: "fl_mul mn (Fin (99/100)) \<noteq> NaN" by (rule fl_mul_not_NaN) simp
  let ?dm = "fl_mul mn (Fin (99/100))"
  let ?logs = "map (\<lambda>x. fl_neg (fl_log10 x))
                 (filter (\<lambda>x. \<not> fl_le x (Fin 0))
                    (map (\<lambda>x. if fl_eq x (Fin 0) then ?dm else x) ?vals))"
  have low: "\<forall>v\<in>set ?logs. v \<noteq> NaN \<and> v \<noteq> PInf"
  proof
    fix v assume "v \<in> set ?logs"
    then obtain x where x: "x \<in> set (map (\<lambda>x. if fl_eq x (Fin 0) then ?dm else x) ?vals)"
      and p: "\<not> fl_le x (Fin 0)" and v: "v = fl_neg (fl_log10 x)"
      by auto
    from in_set_mapD[OF x] obtain w where "w \<in> set ?vals"
      and "x = (if fl_eq w (Fin 0) then ?dm else w)"
      by blast
    with vn dm have "x \<noteq> NaN" by auto
    with p v show "v \<noteq> NaN \<and> v \<noteq> PInf" using neg_log10_low by simp
  qed
  from res have "Inr (if ?logs = [] then MaskedC else Val (np_mean ?logs),
                      if ?logs = [] then MaskedC else Val (np_median ?logs))
                 = (Inr (mean, median) :: error + scalar \<times> scalar)"
    unfolding log_stats_masked_closed Let_def mn sum.case .
  then have mean: "mean = (if ?logs = [] then MaskedC else Val (np_mean ?logs))"
    and median: "median = (if ?logs = [] then MaskedC else Val (np_median ?logs))"
    unfolding sum.inject prod.inject by blast+
  show ?thesis
  proof (cases "?logs = []")
    case True
    with mean median show ?thesis by simp
  next
    case False
    from np_mean_low[OF False low] np_median_low[OF False low] mean median False
    show ?thesis by simp
  qed
qed

lemma masked_array_same_size:
  "length m = length d \<Longrightarrow> masked_array d m = Inr (MaskedArr (zip d m))"
  by (simp add: masked_array_def)

lemma significant_signal_with_mask:
  assumes res: "resolve e t s = Inr p" and load: "nib_load files p = Inr data"
    and mp: "mask_path \<noteq> []"
    and ml: "nib_load files (abspath_expanduser e mask_path) = Inr mask_data"
    and ma: "masked_array (flat data) (map (\<lambda>v. fl_lt v (Fin (1/2))) (flat mask_data))
               = Inr (MaskedArr ps0)"
  shows "significant_signal e files t s mask_path
           = log_stats_masked (filter (\<lambda>(x, m). \<not> fl_isnan x) ps0)"
  using assms by (simp add: significant_signal_def apply_mask_def)

text \<open>
  Claim C9. For a data file that loads. With a mask path: the array that enters the
  statistics holds exactly the voxels that are not NaN; the pair that
  \<^verbatim>\<open>significant_signal\<close> returns is computed from the voxels that are inside the mask
  and not NaN, and from no other: the minimum of the nonzero ones among them (its absence
  is the \<^verbatim>\<open>ValueError\<close>), the zeros replaced, and the mean and the median of minus the
  logarithm of the values above zero; neither is NaN. With no mask path every voxel is
  kept: the pair is the mean and the median of minus the logarithm of all voxels, zeros
  replaced, and a NaN among the voxels makes both NaN.
\<close>

theorem nan_filtered_only_with_mask:
  assumes res: "resolve e t s = Inr p" and load: "nib_load files p = Inr data"
  shows "(mask_path \<noteq> [] \<longrightarrow>
            (\<forall>a. apply_mask e files mask_path data = Inr a \<longrightarrow>
               (\<exists>ps. a = MaskedArr ps \<and>
                     map fst ps = filter (\<lambda>x. \<not> fl_isnan x) (flat data))) \<and>
            (\<forall>mask_data ps0.
               nib_load files (abspath_expanduser e mask_path) = Inr mask_data \<and>
               masked_array (flat data) (map (\<lambda>v. fl_lt v (Fin (1/2))) (flat mask_data))
                 = Inr (MaskedArr ps0) \<longrightarrow>
               (length (flat mask_data) = length (flat data) \<longrightarrow>
                  ps0 = zip (flat data) (map (\<lambda>v. fl_lt v (Fin (1/2))) (flat mask_data))) \<and>
               significant_signal e files t s mask_path =
                 (let vals = map fst (filter (\<lambda>(x, m). \<not> m \<and> \<not> fl_isnan x) ps0)
                  in case np_min (filter (\<lambda>x. \<not> fl_eq x (Fin 0)) vals) of
                    Inl err \<Rightarrow> Inl err
                  | Inr mn \<Rightarrow>
                      let data_min = fl_mul mn (Fin (99/100));
                          logs = map (\<lambda>x. fl_neg (fl_log10 x))
                                   (filter (\<lambda>x. \<not> fl_le x (Fin 0))
                                      (map (\<lambda>x. if fl_eq x (Fin 0) then data_min else x) vals))
                      in Inr (if logs = [] then MaskedC else Val (np_mean logs),
                              if logs = [] then MaskedC else Val (np_median logs)))) \<and>
            (\<forall>mean median. significant_signal e files t s mask_path = Inr (mean, median) \<longrightarrow>
               mean \<noteq> Val NaN \<and> median \<noteq> Val NaN)) \<and>
         (mask_path = [] \<longrightarrow>
            apply_mask e files mask_path data = Inr (Plain (flat data)) \<and>
            significant_signal e files t s mask_path =
              (case np_min (filter (\<lambda>x. \<not> fl_eq x (Fin 0)) (flat data)) of
                 Inl err \<Rightarrow> Inl err
               | Inr mn \<Rightarrow>
                   let data_min = fl_mul mn (Fin (99/100));
                       logs = map (\<lambda>x. fl_neg (fl_log10 x))
                                (map (\<lambda>x. if fl_eq x (Fin 0) then data_min else x) (flat data))
                   in Inr (Val (np_mean logs), Val (np_median logs))) \<and>
            ((\<exists>x\<in>set (flat data). fl_isnan x) \<longrightarrow>
               significant_signal e files t s mask_path = Inr (Val NaN, Val NaN)))"
proof (intro conjI impI allI)
  fix a assume "mask_path \<noteq> []" and "apply_mask e files mask_path data = Inr a"
  then show "\<exists>ps. a = MaskedArr ps \<and> map fst ps = filter (\<lambda>x. \<not> fl_isnan x) (flat data)"
    by (rule apply_mask_with_mask)
next
  fix mask_data ps0
  assume "nib_load files (abspath_expanduser e mask_path) = Inr mask_data \<and>
          masked_array (flat data) (map (\<lambda>v. fl_lt v (Fin (1/2))) (flat mask_data))
            = Inr (MaskedArr ps0)"
    and "length (flat mask_data) = length (flat data)"
  then show "ps0 = zip (flat data) (map (\<lambda>v. fl_lt v (Fin (1/2))) (flat mask_data))"
    by (simp add: masked_array_same_size)
next
  fix mask_data ps0
  assume mp: "mask_path \<noteq> []"
    and m: "nib_load files (abspath_expanduser e mask_path) = Inr mask_data \<and>
          masked_array (flat data) (map (\<lambda>v. fl_lt v (Fin (1/2))) (flat mask_data))
            = Inr (MaskedArr ps0)"
  from m have ml: "nib_load files (abspath_expanduser e mask_path) = Inr mask_data"
    and ma: "masked_array (flat data) (map (\<lambda>v. fl_lt v (Fin (1/2))) (flat mask_data))
               = Inr (MaskedArr ps0)"
    by blast+
  have "significant_signal e files t s mask_path
                 = log_stats_masked (filter (\<lambda>(x, m). \<not> fl_isnan x) ps0)"
    using res load mp ml ma by (rule significant_signal_with_mask)
  then show "significant_signal e files t s mask_path =
                 (let vals = map fst (filter (\<lambda>(x, m). \<not> m \<and> \<not> fl_isnan x) ps0)
                  in case np_min (filter (\<lambda>x. \<not> fl_eq x (Fin 0)) vals) of
                    Inl err \<Rightarrow> Inl err
                  | Inr mn \<Rightarrow>
                      let data_min = fl_mul mn (Fin (99/100));
                          logs = map (\<lambda>x. fl_neg (fl_log10 x))
                                   (filter (\<lambda>x. \<not> fl_le x (Fin 0))
                                      (map (\<lambda>x. if fl_eq x (Fin 0) then data_min else x) vals))
                      in Inr (if logs = [] then MaskedC else Val (np_mean logs),
                              if logs = [] then MaskedC else Val (np_median logs)))"
    unfolding log_stats_masked_closed retained_values .
next
  fix mean median
  assume mp: "mask_path \<noteq> []"
    and r: "significant_signal e files t s mask_path = Inr (mean, median)"
  from r res load obtain a where am: "apply_mask e files mask_path data = Inr a"
    and ls: "log_stats a = Inr (mean, median)"
    by (auto simp: significant_signal_def split: sum.splits)
  from apply_mask_with_mask[OF mp am] obtain ps where a: "a = MaskedArr ps"
    and v: "map fst ps = filter (\<lambda>x. \<not> fl_isnan x) (flat data)" by blast
  have "\<forall>x\<in>set (map fst ps). x \<noteq> NaN"
    unfolding v by (simp add: fl_isnan_iff)
  then have nn: "\<forall>(x, m)\<in>set ps. x \<noteq> NaN" by auto
  from ls a have "log_stats_masked ps = Inr (mean, median)" by simp
  from log_stats_masked_not_NaN[OF nn this]
  show "mean \<noteq> Val NaN" and "median \<noteq> Val NaN" by simp_all
next
  assume "mask_path = []"
  then show "apply_mask e files mask_path data = Inr (Plain (flat data))"
    by (simp add: apply_mask_def)
next
  assume mp: "mask_path = []"
  with res load have "significant_signal e files t s mask_path = log_stats_plain (flat data)"
    by (simp add: significant_signal_def apply_mask_def)
  then show "significant_signal e files t s mask_path =
              (case np_min (filter (\<lambda>x. \<not> fl_eq x (Fin 0)) (flat data)) of
                 Inl err \<Rightarrow> Inl err
               | Inr mn \<Rightarrow>
                   let data_min = fl_mul mn (Fin (99/100));
                       logs = map (\<lambda>x. fl_neg (fl_log10 x))
                                (map (\<lambda>x. if fl_eq x (Fin 0) then data_min else x) (flat data))
                   in Inr (Val (np_mean logs), Val (np_median logs)))"
    unfolding log_stats_plain_def nonzero.simps Let_def .
next
  assume mp: "mask_path = []" and "\<exists>x\<in>set (flat data). fl_isnan x"
  then have "NaN \<in> set (flat data)" by (auto simp: fl_isnan_iff)
  then have "log_stats_plain (flat data) = Inr (Val NaN, Val NaN)"
    by (rule log_stats_plain_has_NaN)
  with res load mp show "significant_signal e files t s mask_path = Inr (Val NaN, Val NaN)"
    by (simp add: significant_signal_def apply_mask_def)
qed

text \<open>
  The theorem at an image with the voxels NaN and one, read without a mask and with a
  mask that includes both voxels.
\<close>

theorem nan_filtered_only_with_mask_witness:
  "resolve env4 tpl1 [(''subject'', ''n'')] = Inr ''/d/n.nii'' \<and>
   nib_load files1 ''/d/n.nii'' = Inr \<lparr>shape = [2], flat = [NaN, Fin 1]\<rparr> \<and>
   fl_isnan (flat \<lparr>shape = [2], flat = [NaN, Fin 1]\<rparr> ! 0) \<and>
   significant_signal env4 files1 tpl1 [(''subject'', ''n'')] [] = Inr (Val NaN, Val NaN) \<and>
   ''/d/roi.nii'' \<noteq> [] \<and>
   nib_load files1 (abspath_expanduser env4 ''/d/roi.nii'')
     = Inr \<lparr>shape = [2], flat = [Fin 1, Fin 1]\<rparr> \<and>
   masked_array [NaN, Fin 1] (map (\<lambda>v. fl_lt v (Fin (1/2))) [Fin 1, Fin 1])
     = Inr (MaskedArr [(NaN, False), (Fin 1, False)]) \<and>
   apply_mask env4 files1 ''/d/roi.nii'' \<lparr>shape = [2], flat = [NaN, Fin 1]\<rparr>
     = Inr (MaskedArr [(Fin 1, False)]) \<and>
   significant_signal env4 files1 tpl1 [(''subject'', ''n'')] ''/d/roi.nii''
     = Inr (Val (Fin 0), Val (Fin 0)) \<and>
   Val (Fin 0) \<noteq> Val NaN"
proof -
  let ?data = "\<lparr>shape = [2], flat = [NaN, Fin 1]\<rparr>"
  let ?roi = "\<lparr>shape = [2], flat = [Fin 1, Fin 1]\<rparr>"
  let ?ps0 = "[(NaN, False), (Fin 1, False)]"
  have h1: "resolve env4 tpl1 [(''subject'', ''n'')] = Inr ''/d/n.nii''"
    by (simp add: evals)
  have h2: "nib_load files1 ''/d/n.nii'' = Inr ?data"
    by (simp add: nib_load_def files1_def)
  note t = nan_filtered_only_with_mask[OF h1 h2]
  have n: "\<exists>x\<in>set (flat ?data). fl_isnan x" by simp
  from t[of "[]"] n
  have r0: "significant_signal env4 files1 tpl1 [(''subject'', ''n'')] [] = Inr (Val NaN, Val NaN)"
    by blast
  have ml: "nib_load files1 (abspath_expanduser env4 ''/d/roi.nii'') = Inr ?roi"
    by (simp add: nib_load_def files1_def env4_def)
  have ma: "masked_array (flat ?data) (map (\<lambda>v. fl_lt v (Fin (1/2))) (flat ?roi))
              = Inr (MaskedArr ?ps0)"
    by (simp add: masked_array_def fl_lt_def)
  have m: "apply_mask env4 files1 ''/d/roi.nii'' ?data = Inr (MaskedArr [(Fin 1, False)])"
    by (simp add: apply_mask_def env4_def nib_load_def files1_def masked_array_def fl_lt_def)
  have ne: "''/d/roi.nii'' \<noteq> []" by simp
  from t[of "''/d/roi.nii''"] ne ml ma
  have "significant_signal env4 files1 tpl1 [(''subject'', ''n'')] ''/d/roi.nii'' =
          (let vals = map fst (filter (\<lambda>(x, m). \<not> m \<and> \<not> fl_isnan x) ?ps0)
           in case np_min (filter (\<lambda>x. \<not> fl_eq x (Fin 0)) vals) of
             Inl err \<Rightarrow> Inl err
           | Inr mn \<Rightarrow>
               let data_min = fl_mul mn (Fin (99/100));
                   logs = map (\<lambda>x. fl_neg (fl_log10 x))
                            (filter (\<lambda>x. \<not> fl_le x (Fin 0))
                               (map (\<lambda>x. if fl_eq x (Fin 0) then data_min else x) vals))
               in Inr (if logs = [] then MaskedC else Val (np_mean logs),
                       if logs = [] then MaskedC else Val (np_median logs)))"
    by blast
  then have r1: "significant_signal env4 files1 tpl1 [(''subject'', ''n'')] ''/d/roi.nii''
     = Inr (Val (Fin 0), Val (Fin 0))"
    by (simp add: np_mean_def np_median_def fl_sum_def fl_sort_def)
  from t[of "''/d/roi.nii''"] ne r1 have nn: "Val (Fin 0) \<noteq> Val NaN" by blast
  from ma have ma': "masked_array [NaN, Fin 1] (map (\<lambda>v. fl_lt v (Fin (1/2))) [Fin 1, Fin 1])
     = Inr (MaskedArr ?ps0)" by simp
  from h1 h2 r0 ne ml ma' m r1 nn show ?thesis by simp
qed

section \<open>The base metrics of constant volumes\<close>

















end
